theory Spec2Isabelle
  imports Complex_Main "HOL-Library.AList" "HOL-Library.Sublist"
begin

section \<open>Python values shared by both tools\<close>

text \<open>
  Text is a \<^typ>\<open>string\<close>: a character outside ASCII is the bytes of its UTF-8 form,
  none of which is an ASCII digit, a point or ASCII white space; the digits and the white
  space that Unicode has outside ASCII are not modelled as such. The exceptions are the
  classes of \<open>Exception\<close> that the called libraries raise; asynchronous interrupts
  (\<open>KeyboardInterrupt\<close>, \<open>SystemExit\<close>) are not \<open>Exception\<close>s and are not modelled.
  \<open>time.sleep\<close> has no effect on any value and is left out.
\<close>

datatype exn =
    Timeout
  | ConnectionError
  | HTTPError nat
  | ValueError
  | IndexError
  | KeyError
  | OSError string
  | WebDriverException string
  | OtherException string

text \<open>\<open>isinstance(e, requests.exceptions.RequestException)\<close>\<close>

fun is_RequestException :: "exn \<Rightarrow> bool" where
  "is_RequestException Timeout = True"
| "is_RequestException ConnectionError = True"
| "is_RequestException (HTTPError _) = True"
| "is_RequestException _ = False"

text \<open>\<open>str(n)\<close> for an integer.\<close>

definition digit_char :: "nat \<Rightarrow> char" where
  "digit_char d = ''0123456789'' ! d"

function str_nat :: "nat \<Rightarrow> string" where
  "str_nat n = (if n < 10 then [digit_char n] else str_nat (n div 10) @ [digit_char (n mod 10)])"
  by pat_completeness auto
termination
  by (relation "measure id") auto

declare str_nat.simps [simp del]

definition str_int :: "int \<Rightarrow> string" where
  "str_int i = (if i < 0 then CHR ''-'' # str_nat (nat (- i)) else str_nat (nat i))"

text \<open>\<open>str.strip()\<close>: white space is removed at both ends.\<close>

definition isspace :: "char \<Rightarrow> bool" where
  "isspace c = (c \<in> set [CHR '' '', CHR 0x09, CHR 0x0A, CHR 0x0B, CHR 0x0C, CHR 0x0D,
                           CHR 0x1C, CHR 0x1D, CHR 0x1E, CHR 0x1F])"

definition strip :: "string \<Rightarrow> string" where
  "strip s = rev (dropWhile isspace (rev (dropWhile isspace s)))"

text \<open>
  \<open>re.search(r'[\d.]+', rate_text)\<close>: the leftmost longest run of digits and points;
  \<open>None\<close> when the text has neither.
\<close>

definition isdigit :: "char \<Rightarrow> bool" where
  "isdigit c = (c \<in> set ''0123456789'')"

definition rate_char :: "char \<Rightarrow> bool" where
  "rate_char c = (isdigit c \<or> c = CHR ''.'')"

definition re_search_rate :: "string \<Rightarrow> string option" where
  "re_search_rate s =
     (case dropWhile (\<lambda>c. \<not> rate_char c) s of
        [] \<Rightarrow> None
      | r \<Rightarrow> Some (takeWhile rate_char r))"

text \<open>
  \<open>float(rate_match.group())\<close>. The argument is a match of \<open>[\d.]+\<close>, so the only
  syntax of \<open>float\<close> that can occur is digits with at most one point and at least one
  digit; everything else this pattern can match (\<open>.\<close>, \<open>1.2.3\<close>) raises
  \<open>ValueError\<close>. The value is the exact decimal number: the rounding to a double,
  and \<open>inf\<close> for a number beyond the doubles, are not modelled.
\<close>

definition digit_val :: "char \<Rightarrow> nat" where
  "digit_val c = of_char c - 48"

definition digits_val :: "string \<Rightarrow> nat" where
  "digits_val ds = foldl (\<lambda>a c. 10 * a + digit_val c) 0 ds"

definition py_float :: "string \<Rightarrow> exn + rat" where
  "py_float s =
     (let ip = takeWhile isdigit s; rest = dropWhile isdigit s in
      case rest of
        [] \<Rightarrow> (if ip = [] then Inl ValueError else Inr (of_nat (digits_val ip)))
      | c # fp \<Rightarrow>
          (if c = CHR ''.'' \<and> list_all isdigit fp \<and> (ip \<noteq> [] \<or> fp \<noteq> [])
           then Inr (of_nat (digits_val (ip @ fp)) / 10 ^ length fp)
           else Inl ValueError))"

section \<open>The parsed page\<close>

text \<open>
  \<open>BeautifulSoup(response.content, 'html.parser')\<close> is a tree of tags and strings;
  the HTML parser itself is not modelled, a response carries its tree. A tag has a name,
  the classes of its \<open>class\<close> attribute and its contents.
\<close>

datatype node =
    Tag string "string list" "node list"
  | NavigableString string

text \<open>The descendants of a tag in document order, which \<open>find\<close> and \<open>find_all\<close> search.\<close>

fun descendants :: "node \<Rightarrow> node list" where
  "descendants (Tag n cs kids) = concat (map (\<lambda>k. k # descendants k) kids)"
| "descendants (NavigableString s) = []"

fun matches :: "string \<Rightarrow> string option \<Rightarrow> node \<Rightarrow> bool" where
  "matches name cls (Tag n cs kids) =
     (n = name \<and> (case cls of None \<Rightarrow> True | Some c \<Rightarrow> c \<in> set cs))"
| "matches name cls (NavigableString s) = False"

definition soup_find_all :: "string \<Rightarrow> string option \<Rightarrow> node \<Rightarrow> node list" where
  "soup_find_all name cls nd = filter (matches name cls) (descendants nd)"

definition soup_find :: "string \<Rightarrow> string option \<Rightarrow> node \<Rightarrow> node option" where
  "soup_find name cls nd = (case soup_find_all name cls nd of [] \<Rightarrow> None | r # _ \<Rightarrow> Some r)"

text \<open>\<open>.text\<close>: the strings below a node, concatenated.\<close>

fun get_text :: "node \<Rightarrow> string" where
  "get_text (NavigableString s) = s"
| "get_text (Tag n cs kids) = concat (map get_text kids)"

section \<open>Exchange Rate Collector: fetch one year\<close>

record response =
  status_code :: nat
  content :: node

text \<open>
  \<open>XRatesScraper\<close>: the base URL, and the session as what
  \<open>self.session.get(url, timeout=10)\<close> does for each URL: it raises or returns a
  response. The headers of the session are fixed and change no value here.
\<close>

record XRatesScraper =
  base_url :: string
  session :: "string \<Rightarrow> exn + response"

definition raise_for_status :: "response \<Rightarrow> exn + unit" where
  "raise_for_status r =
     (if 400 \<le> status_code r \<and> status_code r < 600 then Inl (HTTPError (status_code r))
      else Inr ())"

text \<open>The lines the collector prints, one constructor for each \<open>print\<close>.\<close>

datatype line =
    Fetching int
  | WarnNoContainer int
  | Fetched nat int
  | ErrFetching int exn
  | ErrParsing int exn
  | Saved string
  | ErrSaving exn

text \<open>A \<open>dict\<close> keeps its keys in insertion order; assigning to a key it has keeps the place.\<close>

type_synonym year_data = "(string \<times> rat) list"

definition year_url :: "string \<Rightarrow> int \<Rightarrow> string \<Rightarrow> string \<Rightarrow> int \<Rightarrow> string" where
  "year_url base year from_currency to_currency amount =
     base @ ''?from='' @ from_currency @ ''&to='' @ to_currency
       @ ''&amount='' @ str_int amount @ ''&year='' @ str_int year"

text \<open>The loop over \<open>output_links.find_all('li')\<close>; \<open>Inl\<close> is an exception leaving it.\<close>

fun parse_items :: "node list \<Rightarrow> year_data \<Rightarrow> exn + year_data" where
  "parse_items [] year_data = Inr year_data"
| "parse_items (li # lis) year_data =
     (case (soup_find ''span'' (Some ''avgMonth'') li, soup_find ''span'' (Some ''avgRate'') li) of
        (Some month_span, Some rate_span) \<Rightarrow>
          (let month = strip (get_text month_span);
               rate_text = strip (get_text rate_span) in
           case re_search_rate rate_text of
             Some g \<Rightarrow>
               (case py_float g of
                  Inl e \<Rightarrow> Inl e
                | Inr rate \<Rightarrow> parse_items lis (AList.update month rate year_data))
           | None \<Rightarrow> parse_items lis year_data)
      | _ \<Rightarrow> parse_items lis year_data)"

text \<open>The body of the \<open>try\<close>: what was printed, and the exception raised or the value returned.\<close>

definition get_year_data_try ::
  "XRatesScraper \<Rightarrow> int \<Rightarrow> string \<Rightarrow> string \<Rightarrow> int \<Rightarrow> line list \<times> (exn + year_data option)" where
  "get_year_data_try self year from_currency to_currency amount =
     (case session self (year_url (base_url self) year from_currency to_currency amount) of
        Inl e \<Rightarrow> ([Fetching year], Inl e)
      | Inr resp \<Rightarrow>
          (case raise_for_status resp of
             Inl e \<Rightarrow> ([Fetching year], Inl e)
           | Inr _ \<Rightarrow>
               (case soup_find ''ul'' (Some ''OutputLinksAvg'') (content resp) of
                  None \<Rightarrow> ([Fetching year, WarnNoContainer year], Inr None)
                | Some output_links \<Rightarrow>
                    (case parse_items (soup_find_all ''li'' None output_links) [] of
                       Inl e \<Rightarrow> ([Fetching year], Inl e)
                     | Inr year_data \<Rightarrow>
                         ([Fetching year, Fetched (length year_data) year], Inr (Some year_data))))))"

text \<open>
  \<open>get_year_data\<close>: the two handlers turn every exception of the body into the result
  \<open>None\<close>.
\<close>

definition get_year_data ::
  "XRatesScraper \<Rightarrow> int \<Rightarrow> string \<Rightarrow> string \<Rightarrow> int \<Rightarrow> line list \<times> year_data option" where
  "get_year_data self year from_currency to_currency amount =
     (case get_year_data_try self year from_currency to_currency amount of
        (out, Inr r) \<Rightarrow> (out, r)
      | (out, Inl e) \<Rightarrow>
          (if is_RequestException e then (out @ [ErrFetching year e], None)
           else (out @ [ErrParsing year e], None)))"

section \<open>Exchange Rate Collector: aggregate multiple years\<close>

text \<open>\<open>all_data\<close>: month to (year to rate), both dictionaries in insertion order.\<close>

type_synonym all_data = "(string \<times> (int \<times> rat) list) list"

text \<open>
  One turn of the inner loop:
  \<^verbatim>\<open>if month not in all_data: all_data[month] = {}\<close> and then
  \<^verbatim>\<open>all_data[month][year] = rate\<close>. After the first statement the key is there, so the
  \<open>KeyError\<close> of the second cannot happen.
\<close>

definition add_rate :: "int \<Rightarrow> string \<times> rat \<Rightarrow> all_data \<Rightarrow> all_data" where
  "add_rate year item all_data =
     (case item of (month, rate) \<Rightarrow>
        (let all_data1 =
               (if map_of all_data month = None then AList.update month [] all_data
                else all_data) in
         case map_of all_data1 month of
           None \<Rightarrow> all_data1
         | Some months_years \<Rightarrow>
             AList.update month (AList.update year rate months_years) all_data1))"

text \<open>\<^verbatim>\<open>if year_data:\<close> holds for a dictionary that is not empty.\<close>

fun truthy :: "year_data option \<Rightarrow> bool" where
  "truthy None = False"
| "truthy (Some d) = (d \<noteq> [])"

definition merge_year :: "int \<Rightarrow> year_data option \<Rightarrow> all_data \<Rightarrow> all_data" where
  "merge_year year year_data all_data =
     (if truthy year_data
      then (case year_data of Some d \<Rightarrow> fold (add_rate year) d all_data | None \<Rightarrow> all_data)
      else all_data)"

text \<open>The loop over \<open>range(start_year, end_year + 1)\<close>, with what is printed.\<close>

fun scrape_years ::
  "XRatesScraper \<Rightarrow> string \<Rightarrow> string \<Rightarrow> int list \<Rightarrow> line list \<times> all_data \<Rightarrow> line list \<times> all_data" where
  "scrape_years self from_currency to_currency [] st = st"
| "scrape_years self from_currency to_currency (year # years) st =
     (case st of (out, all_data) \<Rightarrow>
        (case get_year_data self year from_currency to_currency 1 of (out1, year_data) \<Rightarrow>
           scrape_years self from_currency to_currency years
             (out @ out1, merge_year year year_data all_data)))"

subsection \<open>The table\<close>

text \<open>
  A \<open>DataFrame\<close> with month labels as index and years as columns: the values are kept
  row by row, \<open>None\<close> for NaN.
\<close>

record dataframe =
  df_index :: "string list"
  df_columns :: "int list"
  df_values :: "rat option list list"

text \<open>Labels in the order of their first appearance.\<close>

definition unique :: "'a list \<Rightarrow> 'a list" where
  "unique xs = rev (remdups (rev xs))"

text \<open>
  \<open>pd.DataFrame(all_data).T\<close>: one row for each key of \<open>all_data\<close>, one column for
  each year that some month has, NaN where a month lacks the year.
\<close>

definition DataFrame_T :: "all_data \<Rightarrow> dataframe" where
  "DataFrame_T all_data =
     (let years = unique (concat (map (\<lambda>(month, d). map fst d) all_data)) in
      \<lparr>df_index = map fst all_data,
       df_columns = years,
       df_values = map (\<lambda>(month, d). map (map_of d) years) all_data\<rparr>)"

text \<open>\<open>df.reindex(labels)\<close>: the rows of the labels, in their order; a label with no row gives NaN.\<close>

definition reindex :: "string list \<Rightarrow> dataframe \<Rightarrow> dataframe" where
  "reindex labels df =
     df\<lparr>df_index := labels,
        df_values :=
          map (\<lambda>l. case map_of (zip (df_index df) (df_values df)) l of
                      Some row \<Rightarrow> row
                    | None \<Rightarrow> replicate (length (df_columns df)) None) labels\<rparr>"

text \<open>\<open>df.sort_index(axis=1)\<close>: the columns in ascending order, each with its values.\<close>

definition sort_index_columns :: "dataframe \<Rightarrow> dataframe" where
  "sort_index_columns df =
     (let cols = sort (df_columns df) in
      df\<lparr>df_columns := cols,
         df_values :=
           map (\<lambda>row. map (\<lambda>c. case map_of (zip (df_columns df) row) c of
                                    Some v \<Rightarrow> v
                                  | None \<Rightarrow> None) cols) (df_values df)\<rparr>)"

text \<open>The cell of a month and a year: \<open>None\<close> when it is NaN or a label is missing.\<close>

definition df_at :: "dataframe \<Rightarrow> string \<Rightarrow> int \<Rightarrow> rat option" where
  "df_at df month year =
     (case map_of (zip (df_index df) (df_values df)) month of
        None \<Rightarrow> None
      | Some row \<Rightarrow>
          (case map_of (zip (df_columns df) row) year of None \<Rightarrow> None | Some v \<Rightarrow> v))"

definition month_order :: "string list" where
  "month_order = [''Jan'', ''Feb'', ''Mar'', ''Apr'', ''May'', ''Jun'',
                  ''Jul'', ''Aug'', ''Sep'', ''Oct'', ''Nov'', ''Dec'']"

text \<open>
  The statements of \<open>scrape_multiple_years\<close> after its loop: the table of
  \<open>all_data\<close>, its rows put in calendar order and its columns sorted.
\<close>

definition table_of :: "all_data \<Rightarrow> dataframe" where
  "table_of all_data =
     (let df = DataFrame_T all_data;
          existing_months = filter (\<lambda>month. month \<in> set (df_index df)) month_order;
          df = reindex existing_months df;
          df = sort_index_columns df
      in df)"

text \<open>
  \<open>scrape_multiple_years\<close>; \<open>now_year\<close> is \<open>datetime.now().year\<close>, used when
  \<open>end_year\<close> is \<open>None\<close>.
\<close>

definition scrape_multiple_years ::
  "XRatesScraper \<Rightarrow> int \<Rightarrow> int \<Rightarrow> int option \<Rightarrow> string \<Rightarrow> string \<Rightarrow> line list \<times> dataframe" where
  "scrape_multiple_years self now_year start_year end_year from_currency to_currency =
     (let end_year1 = (case end_year of None \<Rightarrow> now_year | Some e \<Rightarrow> e) in
      case scrape_years self from_currency to_currency [start_year..end_year1] ([], []) of
        (out, all_data) \<Rightarrow> (out, table_of all_data))"

section \<open>Exchange Rate Collector: export to a spreadsheet\<close>

text \<open>
  The sheet that \<open>to_excel\<close> fills and \<open>save_to_excel\<close> formats: rows of cells, and
  the widths set for columns (numbered from 1, where openpyxl has letters). A cell holds
  its value and the font, fill and alignment that \<open>save_to_excel\<close> assigns; the
  styles pandas itself gives are not modelled.
\<close>

datatype cell_value = CStr string | CInt int | CNum rat | CEmpty

record cell =
  cvalue :: cell_value
  font :: "(bool \<times> string option) option"
  fill :: "string option"
  alignment :: "string option"

record worksheet =
  title :: string
  ws_rows :: "cell list list"
  column_widths :: "(nat \<times> nat) list"

definition plain :: "cell_value \<Rightarrow> cell" where
  "plain v = \<lparr>cvalue = v, font = None, fill = None, alignment = None\<rparr>"

text \<open>
  \<open>df.to_excel(writer, sheet_name=..., index_label=...)\<close>: a header row with the index
  label and the column labels, then one row for each index label with its values, NaN
  as the empty string.
\<close>

definition to_excel :: "dataframe \<Rightarrow> string \<Rightarrow> string \<Rightarrow> worksheet" where
  "to_excel df sheet_name index_label =
     \<lparr>title = sheet_name,
      ws_rows =
        (plain (CStr index_label) # map (\<lambda>y. plain (CInt y)) (df_columns df))
        # map (\<lambda>(month, row).
                 plain (CStr month)
                 # map (\<lambda>v. case v of None \<Rightarrow> plain (CStr []) | Some r \<Rightarrow> plain (CNum r)) row)
            (zip (df_index df) (df_values df)),
      column_widths = []\<rparr>"

text \<open>
  What the library calls of the export do besides: each may raise. \<open>float_repr\<close> is
  \<open>str\<close> of a float.
\<close>

record xl_env =
  writer_exn :: "string \<Rightarrow> exn option"
  to_excel_exn :: "dataframe \<Rightarrow> exn option"
  save_exn :: "string \<Rightarrow> worksheet \<Rightarrow> exn option"
  float_repr :: "rat \<Rightarrow> string"

text \<open>The loop over \<open>worksheet[1]\<close>; openpyxl makes the cell A1 of a sheet without cells.\<close>

definition format_header :: "worksheet \<Rightarrow> worksheet" where
  "format_header ws =
     (let style = (\<lambda>c. c\<lparr>font := Some (True, Some ''FFFFFF''), fill := Some ''366092'',
                           alignment := Some ''center''\<rparr>) in
      ws\<lparr>ws_rows := (case ws_rows ws of
                        [] \<Rightarrow> [[style (plain CEmpty)]]
                      | header # body \<Rightarrow> map style header # body)\<rparr>)"

text \<open>
  The loop over \<open>range(2, len(df) + 2)\<close>: the cell of column A in each of the
  \<open>len(df)\<close> rows below the header, made when the sheet does not have it.
\<close>

definition format_month_column :: "nat \<Rightarrow> worksheet \<Rightarrow> worksheet" where
  "format_month_column n ws =
     (let style = (\<lambda>c. c\<lparr>font := Some (True, None), alignment := Some ''center''\<rparr>);
          first = (\<lambda>row. case row of [] \<Rightarrow> [style (plain CEmpty)] | c # cs \<Rightarrow> style c # cs) in
      ws\<lparr>ws_rows := (case ws_rows ws of
                        [] \<Rightarrow> (if n = 0 then [] else [] # replicate n [style (plain CEmpty)])
                      | header # body \<Rightarrow>
                          header # map first (take n (body @ replicate (n - length body) []))
                                 @ drop n body)\<rparr>)"

text \<open>The loop over \<open>worksheet.columns\<close>; \<open>str(cell.value)\<close> raises nothing.\<close>

definition str_value :: "xl_env \<Rightarrow> cell_value \<Rightarrow> string" where
  "str_value env v =
     (case v of CStr s \<Rightarrow> s | CInt i \<Rightarrow> str_int i | CNum r \<Rightarrow> float_repr env r
      | CEmpty \<Rightarrow> ''None'')"

definition max_length :: "xl_env \<Rightarrow> cell list \<Rightarrow> nat" where
  "max_length env column =
     fold (\<lambda>c m. if length (str_value env (cvalue c)) > m then length (str_value env (cvalue c)) else m)
       column 0"

definition adjust_widths :: "xl_env \<Rightarrow> worksheet \<Rightarrow> worksheet" where
  "adjust_widths env ws =
     ws\<lparr>column_widths :=
          map (\<lambda>(i, column). (Suc i, min (max_length env column + 2) 15))
            (enumerate 0 (transpose (ws_rows ws)))\<rparr>"

text \<open>
  The body of the \<open>try\<close> of \<open>save_to_excel\<close>: the exception raised, or the sheet as
  it is saved when the \<open>with\<close> block is left. After an exception in the block the
  writer is closed as well; what that does is not modelled.
\<close>

definition save_to_excel_try :: "xl_env \<Rightarrow> dataframe \<Rightarrow> string \<Rightarrow> exn + worksheet" where
  "save_to_excel_try env df filename =
     (case writer_exn env filename of
        Some e \<Rightarrow> Inl e
      | None \<Rightarrow>
          (case to_excel_exn env df of
             Some e \<Rightarrow> Inl e
           | None \<Rightarrow>
               (let worksheet = to_excel df ''Exchange Rates'' ''Month'';
                    worksheet = format_header worksheet;
                    worksheet = format_month_column (length (df_index df)) worksheet;
                    worksheet = adjust_widths env worksheet
                in case save_exn env filename worksheet of
                     Some e \<Rightarrow> Inl e
                   | None \<Rightarrow> Inr worksheet)))"

text \<open>
  \<open>save_to_excel\<close>: what is printed, the file written by a write that succeeds, and
  the value returned. \<open>timestamp\<close> is \<open>datetime.now().strftime("%Y%m%d_%H%M%S")\<close>.
  What a failed write leaves on the disk is not modelled.
\<close>

definition default_filename :: "string \<Rightarrow> string \<Rightarrow> string \<Rightarrow> string" where
  "default_filename from_currency to_currency timestamp =
     ''exchange_rates_'' @ from_currency @ ''_to_'' @ to_currency @ ''_'' @ timestamp @ ''.xlsx''"

record export =
  printed :: "line list"
  written :: "(string \<times> worksheet) option"
  returned :: "string option"

definition save_to_excel ::
  "xl_env \<Rightarrow> string \<Rightarrow> dataframe \<Rightarrow> string option \<Rightarrow> string \<Rightarrow> string \<Rightarrow> export" where
  "save_to_excel env timestamp df filename from_currency to_currency =
     (let filename1 =
            (case filename of
               None \<Rightarrow> default_filename from_currency to_currency timestamp
             | Some f \<Rightarrow> f) in
      case save_to_excel_try env df filename1 of
        Inr worksheet \<Rightarrow>
          \<lparr>printed = [Saved filename1], written = Some (filename1, worksheet),
           returned = Some filename1\<rparr>
      | Inl e \<Rightarrow> \<lparr>printed = [ErrSaving e], written = None, returned = None\<rparr>)"

section \<open>Page Snapshot Tool\<close>

text \<open>
  The script runs from top to bottom with no handler: an exception of any statement ends
  it there. The environment says which library calls raise; the world is the browser
  session, the files and the output. \<open>driver.quit()\<close> of the Chrome driver raises
  nothing.
\<close>

record browser_env =
  chrome_exn :: "exn option"
  get_exn :: "string \<Rightarrow> exn option"
  page_source :: "exn + string"
  open_exn :: "string \<Rightarrow> exn option"
  write_exn :: "string \<Rightarrow> exn option"

record world =
  browser_open :: bool
  files :: "string \<rightharpoonup> string"
  stdout :: "string list"

definition url :: string where
  "url = ''https://visualping.io/diff/827381793?disableId=e809c41fc04b4a6&mode=visual''"

text \<open>
  The result is the exception that ended the script, if any, and the world it leaves.
  \<open>open(..., "w")\<close> makes the file, or empties it, before anything is written.
\<close>

definition scrape :: "browser_env \<Rightarrow> world \<Rightarrow> exn option \<times> world" where
  "scrape env w =
     (case chrome_exn env of
        Some e \<Rightarrow> (Some e, w)
      | None \<Rightarrow>
          (let w1 = w\<lparr>browser_open := True\<rparr> in
           case get_exn env url of
             Some e \<Rightarrow> (Some e, w1)
           | None \<Rightarrow>
               (case page_source env of
                  Inl e \<Rightarrow> (Some e, w1)
                | Inr html_content \<Rightarrow>
                    (case open_exn env ''scraper.html'' of
                       Some e \<Rightarrow> (Some e, w1)
                     | None \<Rightarrow>
                         (let w2 = w1\<lparr>files := (files w1)(''scraper.html'' \<mapsto> [])\<rparr> in
                          case write_exn env html_content of
                            Some e \<Rightarrow> (Some e, w2)
                          | None \<Rightarrow>
                              (let w3 = w2\<lparr>files := (files w2)(''scraper.html'' \<mapsto> html_content)\<rparr>;
                                   w4 = w3\<lparr>browser_open := False\<rparr>
                               in (None,
                                   w4\<lparr>stdout := stdout w4
                                        @ [''HTML content saved to '' @ [CHR 0x27] @ ''scraper.html''
                                           @ [CHR 0x27]]\<rparr>)))))))"

section \<open>Example worlds of the Page Snapshot Tool\<close>

text \<open>No browser, no files, nothing printed; environments where every call succeeds,
  where the navigation fails, and where the write fails.\<close>

definition fresh_world :: world where
  "fresh_world = \<lparr>browser_open = False, files = Map.empty, stdout = []\<rparr>"

definition healthy_env :: browser_env where
  "healthy_env =
     \<lparr>chrome_exn = None, get_exn = (\<lambda>u. None), page_source = Inr ''<html></html>'',
      open_exn = (\<lambda>f. None), write_exn = (\<lambda>c. None)\<rparr>"

definition unreachable_env :: browser_env where
  "unreachable_env =
     healthy_env\<lparr>get_exn := (\<lambda>u. Some (WebDriverException ''net::ERR_NAME_NOT_RESOLVED''))\<rparr>"

definition disk_full_env :: browser_env where
  "disk_full_env = healthy_env\<lparr>write_exn := (\<lambda>c. Some (OSError ''No space left on device''))\<rparr>"

section \<open>Notions used in the statements\<close>

text \<open>The rate that \<open>all_data\<close> holds for a month and a year.\<close>

definition cells :: "all_data \<Rightarrow> string \<Rightarrow> int \<Rightarrow> rat option" where
  "cells all_data month year = (case map_of all_data month of None \<Rightarrow> None | Some d \<Rightarrow> map_of d year)"

text \<open>What \<open>scrape_multiple_years\<close> gets from \<open>get_year_data\<close> for a year.\<close>

definition year_result :: "XRatesScraper \<Rightarrow> string \<Rightarrow> string \<Rightarrow> int \<Rightarrow> year_data option" where
  "year_result self from_currency to_currency year =
     snd (get_year_data self year from_currency to_currency 1)"

text \<open>\<open>all_data\<close> after the loop over the years, in terms of the yearly results.\<close>

definition merged :: "XRatesScraper \<Rightarrow> string \<Rightarrow> string \<Rightarrow> int list \<Rightarrow> all_data \<Rightarrow> all_data" where
  "merged self f t years all_data =
     fold (\<lambda>year. merge_year year (year_result self f t year)) years all_data"

text \<open>The month labels that the yearly results of the given years have.\<close>

definition observed_months :: "XRatesScraper \<Rightarrow> string \<Rightarrow> string \<Rightarrow> int list \<Rightarrow> string list" where
  "observed_months self f t years =
     concat (map (\<lambda>year. case year_result self f t year of None \<Rightarrow> [] | Some d \<Rightarrow> map fst d) years)"

text \<open>
  An entry without the month element or the rate element, or whose rate text has no
  digit and no point.
\<close>

definition skipped :: "node \<Rightarrow> bool" where
  "skipped li =
     (case (soup_find ''span'' (Some ''avgMonth'') li, soup_find ''span'' (Some ''avgRate'') li) of
        (Some month_span, Some rate_span) \<Rightarrow>
          list_all (\<lambda>c. \<not> rate_char c) (strip (get_text rate_span))
      | _ \<Rightarrow> True)"

text \<open>
  The stripped text of the month element of an entry, if it has one, and these texts for
  the entries of a container.
\<close>

definition entry_label :: "node \<Rightarrow> string list" where
  "entry_label li =
     (case soup_find ''span'' (Some ''avgMonth'') li of
        None \<Rightarrow> []
      | Some month_span \<Rightarrow> [strip (get_text month_span)])"

definition month_labels :: "node \<Rightarrow> string list" where
  "month_labels output_links = concat (map entry_label (soup_find_all ''li'' None output_links))"

subsection \<open>Example pages and sites\<close>

text \<open>
  \<open>83.12\<close> followed by a space and the rupee sign; an entry with a month and a rate;
  a page with the container; a response with status 200; a scraper with the default base
  URL.
\<close>

definition rupee_rate :: string where
  "rupee_rate = ''83.12 '' @ [CHR 0xE2, CHR 0x82, CHR 0xB9]"

definition month_li :: "string \<Rightarrow> string \<Rightarrow> node" where
  "month_li month rate =
     Tag ''li'' []
       [Tag ''span'' [''avgMonth''] [NavigableString month], NavigableString '' '',
        Tag ''span'' [''avgRate''] [NavigableString rate]]"

definition rates_page :: "node list \<Rightarrow> node" where
  "rates_page lis =
     Tag ''[document]'' []
       [Tag ''html'' [] [Tag ''body'' [] [Tag ''ul'' [''OutputLinksAvg''] lis]]]"

definition page_response :: "node list \<Rightarrow> exn + response" where
  "page_response lis = Inr \<lparr>status_code = 200, content = rates_page lis\<rparr>"

definition x_rates :: "(string \<Rightarrow> exn + response) \<Rightarrow> XRatesScraper" where
  "x_rates site = \<lparr>base_url = ''https://www.x-rates.com/average/'', session = site\<rparr>"

definition jan_feb_scraper :: XRatesScraper where
  "jan_feb_scraper =
     x_rates (\<lambda>u. page_response [month_li ''Jan'' rupee_rate, month_li ''Feb'' ''no data''])"

definition jan_na_scraper :: XRatesScraper where
  "jan_na_scraper =
     x_rates (\<lambda>u. page_response [month_li ''Jan'' rupee_rate, month_li ''Feb'' ''n.a.''])"

definition january_scraper :: XRatesScraper where
  "january_scraper = x_rates (\<lambda>u. page_response [month_li ''January'' ''83.12''])"

text \<open>
  A network-level error of the request for a URL: the session raises a
  \<open>RequestException\<close> (a timeout, a connection failure), or the response has a status
  for which \<open>raise_for_status\<close> raises.
\<close>

definition network_error :: "XRatesScraper \<Rightarrow> string \<Rightarrow> bool" where
  "network_error self u =
     (case session self u of
        Inl e \<Rightarrow> is_RequestException e
      | Inr resp \<Rightarrow> 400 \<le> status_code resp \<and> status_code resp < 600)"

text \<open>
  A page with Feb, Jan and the label January; a site that times out for 2020 and serves
  this page for every other URL; a site that serves a container without entries for 2020.
\<close>

definition three_months :: "node list" where
  "three_months = [month_li ''Feb'' ''83.5'', month_li ''Jan'' ''82'', month_li ''January'' ''1'']"

definition timeout_2020_scraper :: XRatesScraper where
  "timeout_2020_scraper =
     x_rates (\<lambda>u. if u = ''https://www.x-rates.com/average/?from=USD&to=INR&amount=1&year=2020''
                    then Inl Timeout else page_response three_months)"

definition empty_2020_scraper :: XRatesScraper where
  "empty_2020_scraper =
     x_rates (\<lambda>u. if u = ''https://www.x-rates.com/average/?from=USD&to=INR&amount=1&year=2020''
                    then page_response [] else page_response three_months)"

text \<open>
  The sheet of a table after \<open>to_excel\<close> and the three formatting loops, as it is when
  the writer is closed.
\<close>

definition formatted_sheet :: "xl_env \<Rightarrow> dataframe \<Rightarrow> worksheet" where
  "formatted_sheet env df =
     adjust_widths env
       (format_month_column (length (df_index df))
         (format_header (to_excel df ''Exchange Rates'' ''Month'')))"

text \<open>
  The table without rows and columns, and the sheet with nothing but the header cell of
  the index label, styled as a header, in a column of width 7.
\<close>

definition empty_table :: dataframe where
  "empty_table = \<lparr>df_index = [], df_columns = [], df_values = []\<rparr>"

definition header_only_sheet :: worksheet where
  "header_only_sheet =
     \<lparr>title = ''Exchange Rates'',
      ws_rows = [[\<lparr>cvalue = CStr ''Month'', font = Some (True, Some ''FFFFFF''),
                    fill = Some ''366092'', alignment = Some ''center''\<rparr>]],
      column_widths = [(1, 7)]\<rparr>"

text \<open>
  Environments of the export: one where no library call raises, and one where the file
  cannot be opened for writing.
\<close>

definition quiet_xl :: xl_env where
  "quiet_xl =
     \<lparr>writer_exn = (\<lambda>f. None), to_excel_exn = (\<lambda>df. None), save_exn = (\<lambda>f ws. None),
      float_repr = (\<lambda>r. ''0.0'')\<rparr>"

definition readonly_xl :: xl_env where
  "readonly_xl = quiet_xl\<lparr>writer_exn := (\<lambda>f. Some (OSError ''Permission denied''))\<rparr>"

section \<open>Properties of the Page Snapshot Tool\<close>

text \<open>
  C8. When navigation to the target URL fails, the script ends with an unhandled
  exception (that of the navigation, unless the browser did not even start), and it
  leaves the files as they were and prints nothing: the output file is not created,
  since the statements that open and write it come after a navigation that succeeded.
\<close>

theorem navigation_failure_writes_nothing:
  assumes "get_exn env url = Some e"
  shows "fst (scrape env w) = Some (case chrome_exn env of None \<Rightarrow> e | Some e0 \<Rightarrow> e0)
         \<and> files (snd (scrape env w)) = files w
         \<and> stdout (snd (scrape env w)) = stdout w"
  using assms by (simp add: scrape_def split: option.splits)

theorem navigation_failure_writes_nothing_witness:
  "get_exn unreachable_env url = Some (WebDriverException ''net::ERR_NAME_NOT_RESOLVED'')
   \<and> fst (scrape unreachable_env fresh_world) = Some (WebDriverException ''net::ERR_NAME_NOT_RESOLVED'')
   \<and> files (snd (scrape unreachable_env fresh_world)) ''scraper.html'' = None"
proof -
  have h: "get_exn unreachable_env url = Some (WebDriverException ''net::ERR_NAME_NOT_RESOLVED'')"
    by (simp add: unreachable_env_def)
  have c: "chrome_exn unreachable_env = None"
    by (simp add: unreachable_env_def healthy_env_def)
  have f: "files fresh_world ''scraper.html'' = None"
    by (simp add: fresh_world_def)
  from navigation_failure_writes_nothing [OF h, of fresh_world] h c f show ?thesis
    by simp
qed

text \<open>
  C5, as the script has it. When the browser starts, the navigation succeeds, the page
  source is read and the output file is opened and written, the script ends without an
  exception, with the browser session closed and the page source in the output file.
\<close>

theorem browser_closed_after_success:
  assumes "chrome_exn env = None" and "get_exn env url = None"
    and "page_source env = Inr html_content"
    and "open_exn env ''scraper.html'' = None" and "write_exn env html_content = None"
  shows "fst (scrape env w) = None
         \<and> \<not> browser_open (snd (scrape env w))
         \<and> files (snd (scrape env w)) ''scraper.html'' = Some html_content"
  using assms by (simp add: scrape_def)

theorem browser_closed_after_success_witness:
  "chrome_exn healthy_env = None \<and> get_exn healthy_env url = None
   \<and> page_source healthy_env = Inr ''<html></html>''
   \<and> open_exn healthy_env ''scraper.html'' = None
   \<and> write_exn healthy_env ''<html></html>'' = None
   \<and> fst (scrape healthy_env fresh_world) = None
   \<and> \<not> browser_open (snd (scrape healthy_env fresh_world))
   \<and> files (snd (scrape healthy_env fresh_world)) ''scraper.html'' = Some ''<html></html>''"
proof -
  have h: "chrome_exn healthy_env = None" "get_exn healthy_env url = None"
    "page_source healthy_env = Inr ''<html></html>''"
    "open_exn healthy_env ''scraper.html'' = None"
    "write_exn healthy_env ''<html></html>'' = None"
    by (simp_all add: healthy_env_def)
  from browser_closed_after_success [OF h, of fresh_world] h show ?thesis
    by simp
qed

text \<open>
  C5, as the claim has it, fails: when writing the output file raises, the script ends
  with that exception and the browser session is still open, because
  \<open>driver.quit()\<close> comes after the write and nothing catches the exception.
\<close>

theorem browser_left_open_counterexample:
  "fst (scrape disk_full_env fresh_world) = Some (OSError ''No space left on device'')
   \<and> browser_open (snd (scrape disk_full_env fresh_world))"
  by (simp add: scrape_def disk_full_env_def healthy_env_def fresh_world_def)

section \<open>The aggregated table in terms of the yearly results\<close>

lemma set_unique [simp]: "set (unique xs) = set xs"
  by (simp add: unique_def)

lemma distinct_unique [simp]: "distinct (unique xs)"
  by (simp add: unique_def)

lemma map_of_zip_rows:
  "map_of (zip (map fst al) (map (\<lambda>(k, d). g d) al)) k = map_option g (map_of al k)"
  by (induction al) auto

lemma df_index_table_of:
  "df_index (table_of all_data) = filter (\<lambda>month. month \<in> fst ` set all_data) month_order"
  by (simp add: table_of_def DataFrame_T_def reindex_def sort_index_columns_def Let_def)

lemma df_columns_table_of:
  "df_columns (table_of all_data) = sort (unique (concat (map (\<lambda>(month, d). map fst d) all_data)))"
  by (simp add: table_of_def DataFrame_T_def reindex_def sort_index_columns_def Let_def)

lemma columns_strictly_sorted: "sorted_wrt (<) (df_columns (table_of all_data))"
  by (simp add: df_columns_table_of strict_sorted_iff)

lemma map_of_zip_same:
  "map_of (zip xs (map f xs)) x = (if x \<in> set xs then Some (f x) else None)"
  by (simp add: map_of_zip_map)

lemma inner_keys_in_years:
  assumes "map_of all_data month = Some d" and "map_of d year = Some v"
  shows "year \<in> set (concat (map (\<lambda>(month, d). map fst d) all_data))"
proof -
  from assms(1) have "(month, d) \<in> set all_data" by (rule map_of_SomeD)
  moreover from assms(2) have "year \<in> fst ` set d"
    by (metis domI dom_map_of_conv_image_fst)
  ultimately show ?thesis by force
qed

lemma df_at_table_of:
  "df_at (table_of all_data) month year =
     (if month \<in> set month_order then cells all_data month year else None)"
proof (cases "month \<in> set month_order \<and> month \<in> fst ` set all_data")
  case False
  have "month \<notin> fst ` set all_data \<Longrightarrow> cells all_data month year = None"
    by (simp add: cells_def map_of_eq_None_iff [THEN iffD2])
  with False have "cells all_data month year = None \<or> month \<notin> set month_order"
    by blast
  moreover from False have "df_at (table_of all_data) month year = None"
    by (auto simp: df_at_def table_of_def DataFrame_T_def reindex_def sort_index_columns_def
        Let_def map_of_zip_same)
  ultimately show ?thesis by auto
next
  case True
  then obtain d where d: "map_of all_data month = Some d"
    by (metis map_of_eq_None_iff not_Some_eq)
  define years where "years = unique (concat (map (\<lambda>(month, d). map fst d) all_data))"
  have row: "map_of (zip (map fst all_data) (map (\<lambda>(month, d). map (map_of d) years) all_data)) month
      = Some (map (map_of d) years)"
    using d by (simp add: map_of_zip_rows)
  have "df_at (table_of all_data) month year = (if year \<in> set years then map_of d year else None)"
    using True row
    by (simp add: df_at_def table_of_def DataFrame_T_def reindex_def sort_index_columns_def
        Let_def map_of_zip_same years_def [symmetric])
  moreover have "map_of d year = None" if "year \<notin> set years"
  proof (cases "map_of d year")
    case None
    then show ?thesis .
  next
    case (Some v)
    from inner_keys_in_years [OF d Some] that show ?thesis
      unfolding years_def set_unique by blast
  qed
  ultimately show ?thesis using True d by (simp add: cells_def)
qed

lemma add_rate_keys: "fst ` set (add_rate year (month, rate) all_data) = insert month (fst ` set all_data)"
  by (auto simp: add_rate_def Let_def dom_update map_of_eq_None_iff split: option.splits)

lemma add_rate_distinct:
  "distinct (map fst all_data) \<Longrightarrow> distinct (map fst (add_rate year item all_data))"
  by (cases item) (simp add: add_rate_def Let_def distinct_update split: option.splits)

lemma add_rate_cells:
  "cells (add_rate year (month, rate) all_data) m y =
     (if m = month \<and> y = year then Some rate else cells all_data m y)"
  by (simp add: add_rate_def cells_def Let_def update_conv' split: option.splits)

lemma fold_add_rate_keys:
  "fst ` set (fold (add_rate year) d all_data) = fst ` set d \<union> fst ` set all_data"
proof (induction d arbitrary: all_data)
  case Nil
  then show ?case by simp
next
  case (Cons item d)
  obtain month rate where item: "item = (month, rate)" by (cases item)
  show ?case by (simp add: Cons.IH item add_rate_keys)
qed

lemma fold_add_rate_distinct:
  "distinct (map fst all_data) \<Longrightarrow> distinct (map fst (fold (add_rate year) d all_data))"
  by (induction d arbitrary: all_data) (simp_all add: add_rate_distinct)

lemma fold_add_rate_cells:
  "distinct (map fst d) \<Longrightarrow>
   cells (fold (add_rate year) d all_data) m y =
     (if y = year then (case map_of d m of Some v \<Rightarrow> Some v | None \<Rightarrow> cells all_data m y)
      else cells all_data m y)"
proof (induction d arbitrary: all_data)
  case Nil
  then show ?case by simp
next
  case (Cons item d)
  obtain month rate where item: "item = (month, rate)" by (cases item)
  from Cons.prems item have fresh: "map_of d month = None" and dist: "distinct (map fst d)"
    by (simp_all add: map_of_eq_None_iff)
  show ?case
    using fresh by (simp add: Cons.IH [OF dist] item add_rate_cells split: option.splits)
qed

lemma merge_year_keys:
  "fst ` set (merge_year year r all_data) =
     (case r of None \<Rightarrow> {} | Some d \<Rightarrow> fst ` set d) \<union> fst ` set all_data"
  by (cases r) (auto simp: merge_year_def fold_add_rate_keys)

lemma merge_year_distinct:
  "distinct (map fst all_data) \<Longrightarrow> distinct (map fst (merge_year year r all_data))"
  by (cases r) (simp_all add: merge_year_def fold_add_rate_distinct)

lemma merge_year_cells:
  assumes "\<And>d. r = Some d \<Longrightarrow> distinct (map fst d)"
  shows "cells (merge_year year r all_data) m y =
     (if y = year
      then (case r of None \<Rightarrow> cells all_data m y
            | Some d \<Rightarrow> (case map_of d m of Some v \<Rightarrow> Some v | None \<Rightarrow> cells all_data m y))
      else cells all_data m y)"
proof (cases r)
  case None
  then show ?thesis by (simp add: merge_year_def)
next
  case (Some d)
  show ?thesis
  proof (cases "d = []")
    case True
    with Some show ?thesis by (simp add: merge_year_def)
  next
    case False
    with Some assms show ?thesis by (simp add: merge_year_def fold_add_rate_cells)
  qed
qed

lemma scrape_years_all_data:
  "snd (scrape_years self f t years (out, all_data)) =
     fold (\<lambda>year. merge_year year (year_result self f t year)) years all_data"
  by (induction years arbitrary: out all_data)
     (simp_all add: year_result_def split: prod.splits)

lemma parse_items_distinct:
  "parse_items lis year_data = Inr d \<Longrightarrow> distinct (map fst year_data) \<Longrightarrow> distinct (map fst d)"
proof (induction lis arbitrary: year_data)
  case Nil
  then show ?case by simp
next
  case (Cons li lis)
  from Cons.prems show ?case
    by (auto simp: Let_def distinct_update split: option.splits sum.splits dest: Cons.IH)
qed

lemma year_result_distinct:
  assumes "year_result self f t year = Some d"
  shows "distinct (map fst d)"
proof -
  from assms obtain lis where "parse_items lis [] = Inr d"
    by (auto simp: year_result_def get_year_data_def get_year_data_try_def
        split: sum.splits option.splits if_splits)
  then show ?thesis by (rule parse_items_distinct) simp
qed

lemma merged_keys:
  "fst ` set (merged self f t years all_data) =
     fst ` set all_data \<union>
     {m. \<exists>y\<in>set years. \<exists>d. year_result self f t y = Some d \<and> m \<in> fst ` set d}"
proof (induction years arbitrary: all_data)
  case Nil
  then show ?case by (simp add: merged_def)
next
  case (Cons y years)
  have "merged self f t (y # years) all_data =
        merged self f t years (merge_year y (year_result self f t y) all_data)"
    by (simp add: merged_def)
  then show ?case
    by (auto simp: Cons.IH merge_year_keys split: option.splits)
qed

lemma merged_distinct:
  "distinct (map fst all_data) \<Longrightarrow> distinct (map fst (merged self f t years all_data))"
  unfolding merged_def
  by (induction years arbitrary: all_data) (simp_all add: merge_year_distinct)

lemma merged_cells:
  assumes "distinct years" and "\<And>y m. y \<in> set years \<Longrightarrow> cells all_data m y = None"
  shows "cells (merged self f t years all_data) m y =
     (if y \<in> set years
      then (case year_result self f t y of None \<Rightarrow> None | Some d \<Rightarrow> map_of d m)
      else cells all_data m y)"
  using assms
proof (induction years arbitrary: all_data)
  case Nil
  then show ?case by (simp add: merged_def)
next
  case (Cons y0 years)
  let ?ad = "merge_year y0 (year_result self f t y0) all_data"
  have step: "merged self f t (y0 # years) all_data = merged self f t years ?ad"
    by (simp add: merged_def)
  have mc: "cells ?ad m' y' =
     (if y' = y0
      then (case year_result self f t y0 of None \<Rightarrow> cells all_data m' y'
            | Some d \<Rightarrow> (case map_of d m' of Some v \<Rightarrow> Some v | None \<Rightarrow> cells all_data m' y'))
      else cells all_data m' y')" for m' y'
    by (rule merge_year_cells) (rule year_result_distinct)
  from Cons.prems have dist: "distinct years" and notin: "y0 \<notin> set years" by simp_all
  have fresh: "cells ?ad m' y' = None" if "y' \<in> set years" for y' m'
    using that notin Cons.prems(2) [of y' m'] by (auto simp: mc)
  have here: "cells all_data m y0 = None"
    using Cons.prems(2) [of y0 m] by simp
  have ih: "cells (merged self f t years ?ad) m y =
     (if y \<in> set years
      then (case year_result self f t y of None \<Rightarrow> None | Some d \<Rightarrow> map_of d m)
      else cells ?ad m y)"
    by (rule Cons.IH [OF dist]) (rule fresh)
  show ?case
    unfolding step ih
    using notin here by (auto simp: mc split: option.splits)
qed

lemma scrape_multiple_years_table:
  "snd (scrape_multiple_years self now_year start_year end_year f t) =
     table_of (merged self f t [start_year..(case end_year of None \<Rightarrow> now_year | Some e \<Rightarrow> e)] [])"
proof -
  have "snd (case scrape_years self f t years ([], []) of (out, all_data) \<Rightarrow> (out, table_of all_data))
        = table_of (merged self f t years [])" for years
    using scrape_years_all_data [of self f t years "[]" "[]"]
    by (cases "scrape_years self f t years ([], [])") (simp add: merged_def)
  then show ?thesis by (simp add: scrape_multiple_years_def Let_def)
qed

lemma cells_Nil [simp]: "cells [] m y = None"
  by (simp add: cells_def)

lemma years_iff_cells:
  assumes "distinct (map fst all_data)"
  shows "y \<in> set (concat (map (\<lambda>(month, d). map fst d) all_data)) \<longleftrightarrow> (\<exists>m. cells all_data m y \<noteq> None)"
proof
  assume "y \<in> set (concat (map (\<lambda>(month, d). map fst d) all_data))"
  then obtain m d where md: "(m, d) \<in> set all_data" and y: "y \<in> fst ` set d" by auto
  from assms md have "map_of all_data m = Some d" by (rule map_of_is_SomeI)
  moreover from y have "map_of d y \<noteq> None" by (simp add: map_of_eq_None_iff)
  ultimately have "cells all_data m y \<noteq> None" by (simp add: cells_def)
  then show "\<exists>m. cells all_data m y \<noteq> None" ..
next
  assume "\<exists>m. cells all_data m y \<noteq> None"
  then obtain m d v where "map_of all_data m = Some d" and "map_of d y = Some v"
    by (auto simp: cells_def split: option.splits)
  then show "y \<in> set (concat (map (\<lambda>(month, d). map fst d) all_data))"
    by (rule inner_keys_in_years)
qed

lemma truthy_iff: "truthy r \<longleftrightarrow> (\<exists>d m. r = Some d \<and> map_of d m \<noteq> None)"
proof (cases r)
  case None
  then show ?thesis by simp
next
  case (Some d)
  have "d \<noteq> [] \<longleftrightarrow> (\<exists>m. map_of d m \<noteq> None)"
    by (cases d) (auto simp: map_of_eq_None_iff)
  with Some show ?thesis by simp
qed

lemma merged_cells_range:
  "cells (merged self f t [s..e] []) m y =
     (if s \<le> y \<and> y \<le> e
      then (case year_result self f t y of None \<Rightarrow> None | Some d \<Rightarrow> map_of d m)
      else None)"
  using merged_cells [of "[s..e]" "[]" self f t m y] by simp

lemma table_columns_set:
  "set (df_columns (table_of (merged self f t [s..e] []))) =
     {y. s \<le> y \<and> y \<le> e \<and> truthy (year_result self f t y)}"
proof -
  have dist: "distinct (map fst (merged self f t [s..e] []))"
    by (rule merged_distinct) simp
  have "y \<in> set (df_columns (table_of (merged self f t [s..e] []))) \<longleftrightarrow>
        s \<le> y \<and> y \<le> e \<and> truthy (year_result self f t y)" for y
    unfolding df_columns_table_of set_sort set_unique years_iff_cells [OF dist]
      merged_cells_range truthy_iff
    by (cases "year_result self f t y") auto
  then show ?thesis by blast
qed

lemma table_columns:
  "df_columns (table_of (merged self f t [s..e] [])) =
     filter (\<lambda>y. truthy (year_result self f t y)) [s..e]"
proof (rule sorted_distinct_set_unique)
  show "sorted (df_columns (table_of (merged self f t [s..e] [])))"
    by (simp add: df_columns_table_of)
  show "distinct (df_columns (table_of (merged self f t [s..e] [])))"
    by (simp add: df_columns_table_of)
  show "sorted (filter (\<lambda>y. truthy (year_result self f t y)) [s..e])"
    by (simp add: sorted_wrt_filter)
  show "distinct (filter (\<lambda>y. truthy (year_result self f t y)) [s..e])"
    by simp
  show "set (df_columns (table_of (merged self f t [s..e] []))) =
        set (filter (\<lambda>y. truthy (year_result self f t y)) [s..e])"
    by (auto simp: table_columns_set)
qed

lemma table_cell:
  "df_at (table_of (merged self f t [s..e] [])) m y =
     (if m \<in> set month_order \<and> s \<le> y \<and> y \<le> e
      then (case year_result self f t y of None \<Rightarrow> None | Some d \<Rightarrow> map_of d m)
      else None)"
  by (simp add: df_at_table_of merged_cells_range)

lemma table_index:
  "df_index (table_of (merged self f t years [])) =
     filter (\<lambda>m. m \<in> set (observed_months self f t years)) month_order"
proof -
  have "fst ` set (merged self f t years []) = set (observed_months self f t years)"
    unfolding merged_keys observed_months_def
    by (auto split: option.splits) force+
  then show ?thesis by (simp add: df_index_table_of)
qed

section \<open>Properties of fetching one year\<close>

lemma re_search_rate_None_iff: "re_search_rate s = None \<longleftrightarrow> list_all (\<lambda>c. \<not> rate_char c) s"
proof (cases "dropWhile (\<lambda>c. \<not> rate_char c) s")
  case Nil
  then have "re_search_rate s = None"
    by (simp only: re_search_rate_def list.case)
  moreover from Nil have "\<forall>c\<in>set s. \<not> rate_char c"
    by simp
  ultimately show ?thesis by (simp add: list_all_iff)
next
  case (Cons a r)
  then have "re_search_rate s \<noteq> None"
    by (simp only: re_search_rate_def list.case) simp
  moreover from Cons have "\<not> (\<forall>c\<in>set s. \<not> rate_char c)"
    by (metis dropWhile_eq_Nil_conv list.distinct(1))
  ultimately show ?thesis unfolding list_all_iff by blast
qed

lemma parse_items_skipped:
  assumes "skipped li"
  shows "parse_items (li # lis) year_data = parse_items lis year_data"
proof (cases "soup_find ''span'' (Some ''avgMonth'') li")
  case None
  then show ?thesis by simp
next
  case month: (Some month_span)
  show ?thesis
  proof (cases "soup_find ''span'' (Some ''avgRate'') li")
    case None
    with month show ?thesis by simp
  next
    case rate: (Some rate_span)
    from assms month rate have "re_search_rate (strip (get_text rate_span)) = None"
      by (simp add: skipped_def re_search_rate_None_iff)
    with month rate show ?thesis by (simp add: Let_def)
  qed
qed

lemma parse_items_without_skipped:
  "parse_items lis year_data = parse_items (filter (\<lambda>li. \<not> skipped li) lis) year_data"
proof (induction lis arbitrary: year_data)
  case Nil
  then show ?case by simp
next
  case (Cons li lis)
  show ?case
  proof (cases "skipped li")
    case True
    then have "parse_items (li # lis) year_data = parse_items lis year_data"
      by (rule parse_items_skipped)
    also have "\<dots> = parse_items (filter (\<lambda>li. \<not> skipped li) lis) year_data"
      by (rule Cons.IH)
    also from True have "filter (\<lambda>li. \<not> skipped li) lis = filter (\<lambda>li. \<not> skipped li) (li # lis)"
      by simp
    finally show ?thesis .
  next
    case False
    have "parse_items (li # lis) yd = parse_items (li # filter (\<lambda>li. \<not> skipped li) lis) yd" for yd
      using Cons.IH by (simp split: option.splits sum.splits add: Let_def)
    with False show ?thesis by simp
  qed
qed

lemma py_float_nonneg: "py_float s = Inr r \<Longrightarrow> 0 \<le> r"
  by (auto simp: py_float_def Let_def split: list.splits if_splits)

lemma py_float_error: "py_float s = Inl e \<Longrightarrow> e = ValueError"
  by (auto simp: py_float_def Let_def split: list.splits if_splits)

lemma set_update_subset: "set (AList.update k v al) \<subseteq> insert (k, v) (set al)"
  by (induction al) auto

lemma parse_items_error: "parse_items lis year_data = Inl e \<Longrightarrow> e = ValueError"
proof (induction lis arbitrary: year_data)
  case Nil
  then show ?case by simp
next
  case (Cons li lis)
  from Cons.prems show ?case
    by (auto simp: Let_def split: option.splits sum.splits dest: Cons.IH py_float_error)
qed

lemma parse_items_values:
  "parse_items lis year_data = Inr d \<Longrightarrow> \<forall>(k, v)\<in>set year_data. 0 \<le> v \<Longrightarrow> \<forall>(k, v)\<in>set d. 0 \<le> v"
proof (induction lis arbitrary: year_data)
  case Nil
  then show ?case by simp
next
  case (Cons li lis)
  have upd: "\<forall>(k, v)\<in>set (AList.update m r year_data). 0 \<le> v" if "py_float g = Inr r" for m r g
    using set_update_subset [of m r year_data] py_float_nonneg [OF that] Cons.prems(2) by auto
  from Cons.prems(1) show ?case
    by (auto simp: Let_def split: option.splits sum.splits
        dest!: Cons.IH [OF _ upd] Cons.IH [OF _ Cons.prems(2)])
qed

lemma get_year_data_page:
  assumes "session self (year_url (base_url self) year f t a) = Inr resp"
    and "raise_for_status resp = Inr ()"
    and "soup_find ''ul'' (Some ''OutputLinksAvg'') (content resp) = Some output_links"
  shows "get_year_data self year f t a =
     (case parse_items (soup_find_all ''li'' None output_links) [] of
        Inr d \<Rightarrow> ([Fetching year, Fetched (length d) year], Some d)
      | Inl e \<Rightarrow> ([Fetching year, ErrParsing year e], None))"
proof (cases "parse_items (soup_find_all ''li'' None output_links) []")
  case (Inl e)
  then have "e = ValueError" by (rule parse_items_error)
  with Inl assms show ?thesis
    by (simp add: get_year_data_def get_year_data_try_def)
next
  case (Inr d)
  with assms show ?thesis
    by (simp add: get_year_data_def get_year_data_try_def)
qed

text \<open>
  C1, as the code has it. An entry that lacks the month element or the rate element, or
  whose rate text has no digit and no point, is skipped without a printed line: when the
  page is fetched and has the container, the fetch returns and prints exactly what it
  would for the page without these entries, so every other entry is parsed and no
  skipped entry discards its neighbours or the year. For Jan with \<open>83.12\<close> and the
  rupee sign and Feb with \<open>no data\<close> the result is the mapping of Jan to 83.12.
\<close>

theorem skipped_entries_leave_the_rest:
  assumes "session self (year_url (base_url self) year f t a) = Inr resp"
    and "raise_for_status resp = Inr ()"
    and "soup_find ''ul'' (Some ''OutputLinksAvg'') (content resp) = Some output_links"
  shows "get_year_data self year f t a =
     (case parse_items (filter (\<lambda>li. \<not> skipped li) (soup_find_all ''li'' None output_links)) [] of
        Inr d \<Rightarrow> ([Fetching year, Fetched (length d) year], Some d)
      | Inl e \<Rightarrow> ([Fetching year, ErrParsing year e], None))"
  using get_year_data_page [OF assms] parse_items_without_skipped [of "soup_find_all ''li'' None output_links" "[]"]
  by simp

lemma find_month_li:
  "soup_find ''span'' (Some ''avgMonth'') (month_li m r) = Some (Tag ''span'' [''avgMonth''] [NavigableString m])"
  by (simp add: soup_find_def soup_find_all_def month_li_def)

lemma find_rate_li:
  "soup_find ''span'' (Some ''avgRate'') (month_li m r) = Some (Tag ''span'' [''avgRate''] [NavigableString r])"
  by (simp add: soup_find_def soup_find_all_def month_li_def)

lemma find_ul_page:
  "soup_find ''ul'' (Some ''OutputLinksAvg'') (rates_page lis) = Some (Tag ''ul'' [''OutputLinksAvg''] lis)"
  by (simp add: soup_find_def soup_find_all_def rates_page_def)

lemma month_li_is_li: "matches ''li'' None (month_li m r)"
  by (simp add: month_li_def)

lemma no_li_in_month_li: "filter (matches ''li'' None) (descendants (month_li m r)) = []"
  by (simp add: month_li_def)

lemma find_all_li_1: "soup_find_all ''li'' None (Tag ''ul'' cs [month_li m r]) = [month_li m r]"
  by (simp add: soup_find_all_def month_li_is_li no_li_in_month_li)

lemma find_all_li_2:
  "soup_find_all ''li'' None (Tag ''ul'' cs [month_li m1 r1, month_li m2 r2]) = [month_li m1 r1, month_li m2 r2]"
  by (simp add: soup_find_all_def month_li_is_li no_li_in_month_li)

lemma find_all_li_3:
  "soup_find_all ''li'' None (Tag ''ul'' cs [month_li m1 r1, month_li m2 r2, month_li m3 r3]) =
     [month_li m1 r1, month_li m2 r2, month_li m3 r3]"
  by (simp add: soup_find_all_def month_li_is_li no_li_in_month_li)

lemma skipped_month_li: "skipped (month_li m r) = list_all (\<lambda>c. \<not> rate_char c) (strip r)"
  by (simp add: skipped_def find_month_li find_rate_li)

lemma parse_items_month_li:
  "parse_items (month_li m r # lis) year_data =
     (case re_search_rate (strip r) of
        None \<Rightarrow> parse_items lis year_data
      | Some g \<Rightarrow>
          (case py_float g of
             Inl e \<Rightarrow> Inl e
           | Inr rate \<Rightarrow> parse_items lis (AList.update (strip m) rate year_data)))"
  by (simp add: find_month_li find_rate_li)

lemma strip_examples:
  "strip ''Jan'' = ''Jan''" "strip ''Feb'' = ''Feb''" "strip ''January'' = ''January''"
  "strip rupee_rate = rupee_rate" "strip ''no data'' = ''no data''"
  "strip ''n.a.'' = ''n.a.''" "strip ''83.12'' = ''83.12''" "strip ''83.5'' = ''83.5''"
  "strip ''82'' = ''82''" "strip ''1'' = ''1''"
  by (simp_all add: strip_def isspace_def rupee_rate_def)

lemma re_search_examples:
  "re_search_rate rupee_rate = Some ''83.12''" "re_search_rate ''no data'' = None"
  "re_search_rate ''n.a.'' = Some ''.''" "re_search_rate ''83.12'' = Some ''83.12''"
  "re_search_rate ''83.5'' = Some ''83.5''" "re_search_rate ''82'' = Some ''82''"
  "re_search_rate ''1'' = Some ''1''"
  by (simp_all add: re_search_rate_def rate_char_def isdigit_def rupee_rate_def)

lemma py_float_examples:
  "py_float ''83.12'' = Inr (2078 / 25)" "py_float ''.'' = Inl ValueError"
  "py_float ''83.5'' = Inr (167 / 2)" "py_float ''82'' = Inr 82" "py_float ''1'' = Inr 1"
  by (simp_all add: py_float_def isdigit_def digits_val_def digit_val_def)

lemmas entry_evals =
  find_month_li find_rate_li strip_examples re_search_examples py_float_examples

lemma ok_status: "raise_for_status \<lparr>status_code = 200, content = c\<rparr> = Inr ()"
  by (simp add: raise_for_status_def)

theorem skipped_entries_leave_the_rest_witness:
  "session jan_feb_scraper (year_url (base_url jan_feb_scraper) 2024 ''USD'' ''INR'' 1) =
     Inr \<lparr>status_code = 200,
          content = rates_page [month_li ''Jan'' rupee_rate, month_li ''Feb'' ''no data'']\<rparr>
   \<and> skipped (month_li ''Feb'' ''no data'')
   \<and> get_year_data jan_feb_scraper 2024 ''USD'' ''INR'' 1 =
       ([Fetching 2024, Fetched 1 2024], Some [(''Jan'', 2078 / 25)])"
proof -
  let ?lis = "[month_li ''Jan'' rupee_rate, month_li ''Feb'' ''no data'']"
  have s: "session jan_feb_scraper (year_url (base_url jan_feb_scraper) 2024 ''USD'' ''INR'' 1)
           = Inr \<lparr>status_code = 200, content = rates_page ?lis\<rparr>"
    by (simp add: jan_feb_scraper_def x_rates_def page_response_def)
  have feb: "skipped (month_li ''Feb'' ''no data'')"
    by (simp add: skipped_month_li strip_examples rate_char_def isdigit_def)
  have jan: "\<not> skipped (month_li ''Jan'' rupee_rate)"
    by (simp add: skipped_month_li strip_examples re_search_rate_None_iff [symmetric] re_search_examples)
  have p: "parse_items [month_li ''Jan'' rupee_rate] [] = Inr [(''Jan'', 2078 / 25)]"
    by (simp add: entry_evals)
  from skipped_entries_leave_the_rest [OF s ok_status, of "Tag ''ul'' [''OutputLinksAvg''] ?lis"]
  have "get_year_data jan_feb_scraper 2024 ''USD'' ''INR'' 1 =
       ([Fetching 2024, Fetched 1 2024], Some [(''Jan'', 2078 / 25)])"
    by (simp add: find_ul_page find_all_li_2 feb jan p del: parse_items.simps)
  with s feb show ?thesis by simp
qed

text \<open>
  C1, as the claim has it, fails for a rate text from which no number can be taken but
  which has a point: for \<open>n.a.\<close> the pattern matches \<open>.\<close>, \<open>float\<close> raises
  \<open>ValueError\<close>, and the handler returns \<open>None\<close> for the whole year although the
  entry for Jan is well formed.
\<close>

theorem unparsable_rate_discards_year_counterexample:
  "\<not> skipped (month_li ''Jan'' rupee_rate)
   \<and> re_search_rate ''n.a.'' = Some ''.''
   \<and> py_float ''.'' = Inl ValueError
   \<and> get_year_data jan_na_scraper 2024 ''USD'' ''INR'' 1 =
       ([Fetching 2024, ErrParsing 2024 ValueError], None)"
proof -
  let ?lis = "[month_li ''Jan'' rupee_rate, month_li ''Feb'' ''n.a.'']"
  have s: "session jan_na_scraper (year_url (base_url jan_na_scraper) 2024 ''USD'' ''INR'' 1)
           = Inr \<lparr>status_code = 200, content = rates_page ?lis\<rparr>"
    by (simp add: jan_na_scraper_def x_rates_def page_response_def)
  have jan: "\<not> skipped (month_li ''Jan'' rupee_rate)"
    by (simp add: skipped_month_li strip_examples re_search_rate_None_iff [symmetric] re_search_examples)
  have p: "parse_items ?lis [] = Inl ValueError"
    by (simp add: entry_evals)
  from get_year_data_page [OF s ok_status, of "Tag ''ul'' [''OutputLinksAvg''] ?lis"]
  have "get_year_data jan_na_scraper 2024 ''USD'' ''INR'' 1 =
       ([Fetching 2024, ErrParsing 2024 ValueError], None)"
    by (simp add: find_ul_page find_all_li_2 p del: parse_items.simps)
  with jan show ?thesis by (simp add: re_search_examples py_float_examples)
qed

lemma parse_items_step:
  assumes "parse_items (li # lis) year_data = Inr d"
  shows "parse_items lis year_data = Inr d
     \<or> (\<exists>month_span rate. soup_find ''span'' (Some ''avgMonth'') li = Some month_span
           \<and> parse_items lis (AList.update (strip (get_text month_span)) rate year_data) = Inr d)"
proof (cases "soup_find ''span'' (Some ''avgMonth'') li")
  case None
  with assms show ?thesis by simp
next
  case month: (Some month_span)
  show ?thesis
  proof (cases "soup_find ''span'' (Some ''avgRate'') li")
    case None
    with assms month show ?thesis by simp
  next
    case rate: (Some rate_span)
    show ?thesis
    proof (cases "re_search_rate (strip (get_text rate_span))")
      case None
      with assms month rate show ?thesis by (simp add: Let_def)
    next
      case g: (Some g)
      show ?thesis
      proof (cases "py_float g")
        case (Inl e)
        with assms month rate g show ?thesis by (simp add: Let_def)
      next
        case (Inr r)
        with assms month rate g
        have "parse_items lis (AList.update (strip (get_text month_span)) r year_data) = Inr d"
          by (simp add: Let_def)
        with month show ?thesis by blast
      qed
    qed
  qed
qed

lemma parse_items_keys:
  "parse_items lis year_data = Inr d \<Longrightarrow>
   fst ` set d \<subseteq> fst ` set year_data \<union> set (concat (map entry_label lis))"
proof (induction lis arbitrary: year_data)
  case Nil
  then show ?case by simp
next
  case (Cons li lis)
  have labels_Cons: "set (concat (map entry_label (li # lis))) =
      set (entry_label li) \<union> set (concat (map entry_label lis))"
    by simp
  from parse_items_step [OF Cons.prems] consider
    (skip) "parse_items lis year_data = Inr d"
    | (update) month_span rate where "soup_find ''span'' (Some ''avgMonth'') li = Some month_span"
        and "parse_items lis (AList.update (strip (get_text month_span)) rate year_data) = Inr d"
    by blast
  then show ?case
  proof cases
    case skip
    then have "fst ` set d \<subseteq> fst ` set year_data \<union> set (concat (map entry_label lis))"
      by (rule Cons.IH)
    moreover have "fst ` set year_data \<union> set (concat (map entry_label lis))
          \<subseteq> fst ` set year_data \<union> (set (entry_label li) \<union> set (concat (map entry_label lis)))"
      by auto
    ultimately show ?thesis
      unfolding labels_Cons by (rule order_trans)
  next
    case update
    have "fst ` set d \<subseteq> fst ` set (AList.update (strip (get_text month_span)) rate year_data)
            \<union> set (concat (map entry_label lis))"
      using update(2) by (rule Cons.IH)
    then have "fst ` set d \<subseteq> insert (strip (get_text month_span)) (fst ` set year_data)
            \<union> set (concat (map entry_label lis))"
      by (simp only: dom_update insert_is_Un [symmetric])
    moreover from update(1) have "strip (get_text month_span) \<in> set (entry_label li)"
      by (simp add: entry_label_def)
    then have "insert (strip (get_text month_span)) (fst ` set year_data)
            \<union> set (concat (map entry_label lis))
          \<subseteq> fst ` set year_data \<union> (set (entry_label li) \<union> set (concat (map entry_label lis)))"
      by auto
    ultimately show ?thesis
      unfolding labels_Cons by (rule order_trans)
  qed
qed

lemma get_year_data_Some:
  assumes "snd (get_year_data self year f t a) = Some d"
  obtains resp output_links where
    "session self (year_url (base_url self) year f t a) = Inr resp"
    "soup_find ''ul'' (Some ''OutputLinksAvg'') (content resp) = Some output_links"
    "parse_items (soup_find_all ''li'' None output_links) [] = Inr d"
    "get_year_data self year f t a = ([Fetching year, Fetched (length d) year], Some d)"
  using assms
  by (auto simp: get_year_data_def get_year_data_try_def split: sum.splits option.splits if_splits)

text \<open>
  C2, as the code has it. For every year fetched successfully, every value of the
  returned mapping is a non-negative number, and every key is the stripped text of the
  month element of an entry of the container of the page. The fetch does not compare the
  key with the twelve abbreviations.
\<close>

theorem fetched_keys_and_values:
  assumes "snd (get_year_data self year f t a) = Some d"
  shows "(\<forall>(month, rate)\<in>set d. 0 \<le> rate)
     \<and> (\<exists>resp output_links.
          session self (year_url (base_url self) year f t a) = Inr resp
          \<and> soup_find ''ul'' (Some ''OutputLinksAvg'') (content resp) = Some output_links
          \<and> fst ` set d \<subseteq> set (month_labels output_links))"
proof -
  from assms obtain resp output_links where
    s: "session self (year_url (base_url self) year f t a) = Inr resp" and
    u: "soup_find ''ul'' (Some ''OutputLinksAvg'') (content resp) = Some output_links" and
    p: "parse_items (soup_find_all ''li'' None output_links) [] = Inr d"
    by (rule get_year_data_Some)
  from p have "\<forall>(month, rate)\<in>set d. 0 \<le> rate"
    by (rule parse_items_values) simp
  moreover from parse_items_keys [OF p] have "fst ` set d \<subseteq> set (month_labels output_links)"
    by (simp add: month_labels_def)
  ultimately show ?thesis using s u by blast
qed

lemma january_result:
  "get_year_data january_scraper 2024 ''USD'' ''INR'' 1 =
     ([Fetching 2024, Fetched 1 2024], Some [(''January'', 2078 / 25)])"
proof -
  have s: "session january_scraper (year_url (base_url january_scraper) 2024 ''USD'' ''INR'' 1)
           = Inr \<lparr>status_code = 200, content = rates_page [month_li ''January'' ''83.12'']\<rparr>"
    by (simp add: january_scraper_def x_rates_def page_response_def)
  have p: "parse_items [month_li ''January'' ''83.12''] [] = Inr [(''January'', 2078 / 25)]"
    by (simp add: entry_evals)
  from get_year_data_page [OF s ok_status, of "Tag ''ul'' [''OutputLinksAvg''] [month_li ''January'' ''83.12'']"]
  show ?thesis
    by (simp add: find_ul_page find_all_li_1 p del: parse_items.simps)
qed

theorem fetched_keys_and_values_witness:
  "snd (get_year_data january_scraper 2024 ''USD'' ''INR'' 1) = Some [(''January'', 2078 / 25)]
   \<and> (0::rat) \<le> 2078 / 25"
proof -
  have h: "snd (get_year_data january_scraper 2024 ''USD'' ''INR'' 1) = Some [(''January'', 2078 / 25)]"
    by (simp add: january_result)
  from fetched_keys_and_values [OF h] have "(0::rat) \<le> 2078 / 25"
    by simp
  with h show ?thesis by simp
qed

text \<open>
  C2, as the claim has it, fails: a page whose entry is labelled January is fetched
  successfully and the returned mapping has the key January, which is none of the twelve
  abbreviations.
\<close>

theorem month_label_not_checked_counterexample:
  "snd (get_year_data january_scraper 2024 ''USD'' ''INR'' 1) = Some [(''January'', 2078 / 25)]
   \<and> ''January'' \<notin> set month_order"
  by (simp add: january_result month_order_def)

section \<open>Properties of the aggregation\<close>

lemma get_year_data_network_error:
  assumes "network_error self (year_url (base_url self) year f t a)"
  shows "\<exists>e. is_RequestException e
          \<and> get_year_data self year f t a = ([Fetching year, ErrFetching year e], None)"
proof (cases "session self (year_url (base_url self) year f t a)")
  case (Inl e)
  with assms have "is_RequestException e" by (simp add: network_error_def)
  with Inl have "get_year_data self year f t a = ([Fetching year, ErrFetching year e], None)"
    by (simp add: get_year_data_def get_year_data_try_def)
  with \<open>is_RequestException e\<close> show ?thesis by blast
next
  case (Inr resp)
  with assms have "raise_for_status resp = Inl (HTTPError (status_code resp))"
    by (simp add: network_error_def raise_for_status_def)
  with Inr have "get_year_data self year f t a =
      ([Fetching year, ErrFetching year (HTTPError (status_code resp))], None)"
    by (simp add: get_year_data_def get_year_data_try_def)
  moreover have "is_RequestException (HTTPError (status_code resp))" by simp
  ultimately show ?thesis by blast
qed

text \<open>
  C3. For every scraper, year range and currency pair, the rows of the aggregated table
  are a subsequence of Jan, ..., Dec: exactly the months of that list that some yearly
  result of the range has, in that order; and the columns are strictly ascending: they
  are the years of the range whose result is a mapping that is not empty.
\<close>

theorem table_rows_and_columns_ordered:
  "subseq (df_index (snd (scrape_multiple_years self now_year start_year end_year f t))) month_order
   \<and> df_index (snd (scrape_multiple_years self now_year start_year end_year f t)) =
       filter (\<lambda>m. m \<in> set (observed_months self f t
                  [start_year..(case end_year of None \<Rightarrow> now_year | Some e \<Rightarrow> e)])) month_order
   \<and> sorted_wrt (<) (df_columns (snd (scrape_multiple_years self now_year start_year end_year f t)))
   \<and> df_columns (snd (scrape_multiple_years self now_year start_year end_year f t)) =
       filter (\<lambda>y. truthy (year_result self f t y))
         [start_year..(case end_year of None \<Rightarrow> now_year | Some e \<Rightarrow> e)]"
proof (intro conjI)
  let ?df = "snd (scrape_multiple_years self now_year start_year end_year f t)"
  let ?years = "[start_year..(case end_year of None \<Rightarrow> now_year | Some e \<Rightarrow> e)]"
  show "df_index ?df = filter (\<lambda>m. m \<in> set (observed_months self f t ?years)) month_order"
    by (simp add: scrape_multiple_years_table table_index)
  then show "subseq (df_index ?df) month_order"
    by simp
  show "sorted_wrt (<) (df_columns ?df)"
    by (simp add: scrape_multiple_years_table columns_strictly_sorted)
  show "df_columns ?df = filter (\<lambda>y. truthy (year_result self f t y)) ?years"
    by (simp add: scrape_multiple_years_table table_columns)
qed

text \<open>
  C4. When the request for a year meets a network-level error, \<open>get_year_data\<close>
  prints the error and returns \<open>None\<close>; the aggregated table of any range then has
  no column and no cell for that year, while every year of the range whose fetch returned
  a mapping that is not empty has its column, and the cell of each calendar month in it
  is the rate of that month in the fetch result (NaN when the result lacks the month).
\<close>

theorem failed_year_has_no_column:
  assumes "network_error self (year_url (base_url self) year f t 1)"
  shows "snd (get_year_data self year f t 1) = None
     \<and> (\<exists>e. is_RequestException e
            \<and> fst (get_year_data self year f t 1) = [Fetching year, ErrFetching year e])
     \<and> year \<notin> set (df_columns (snd (scrape_multiple_years self now_year start_year end_year f t)))
     \<and> (\<forall>m. df_at (snd (scrape_multiple_years self now_year start_year end_year f t)) m year = None)
     \<and> (\<forall>y d. start_year \<le> y \<and> y \<le> (case end_year of None \<Rightarrow> now_year | Some e \<Rightarrow> e)
              \<and> year_result self f t y = Some d \<and> d \<noteq> [] \<longrightarrow>
           y \<in> set (df_columns (snd (scrape_multiple_years self now_year start_year end_year f t)))
           \<and> (\<forall>m. df_at (snd (scrape_multiple_years self now_year start_year end_year f t)) m y =
                   (if m \<in> set month_order then map_of d m else None)))"
proof -
  define last_year where "last_year = (case end_year of None \<Rightarrow> now_year | Some e \<Rightarrow> e)"
  from get_year_data_network_error [OF assms] obtain e where
    e: "is_RequestException e"
    and g: "get_year_data self year f t 1 = ([Fetching year, ErrFetching year e], None)"
    by blast
  from g have r: "year_result self f t year = None"
    by (simp add: year_result_def)
  have tab: "snd (scrape_multiple_years self now_year start_year end_year f t) =
      table_of (merged self f t [start_year..last_year] [])"
    by (simp add: scrape_multiple_years_table last_year_def)
  have 1: "snd (get_year_data self year f t 1) = None"
    using g by simp
  have 2: "\<exists>e. is_RequestException e
            \<and> fst (get_year_data self year f t 1) = [Fetching year, ErrFetching year e]"
    using e g by auto
  have 3: "year \<notin> set (df_columns (table_of (merged self f t [start_year..last_year] [])))"
    by (simp add: table_columns_set r)
  have 4: "\<forall>m. df_at (table_of (merged self f t [start_year..last_year] [])) m year = None"
    by (simp add: table_cell r)
  have 5: "\<forall>y d. start_year \<le> y \<and> y \<le> last_year \<and> year_result self f t y = Some d \<and> d \<noteq> [] \<longrightarrow>
           y \<in> set (df_columns (table_of (merged self f t [start_year..last_year] [])))
           \<and> (\<forall>m. df_at (table_of (merged self f t [start_year..last_year] [])) m y =
                   (if m \<in> set month_order then map_of d m else None))"
    by (simp add: table_columns_set table_cell)
  from 1 2 3 4 5 show ?thesis
    unfolding tab last_year_def [symmetric] by (intro conjI)
qed

text \<open>
  C9. A month label that a successful fetch returned, and counted in its printed line,
  but that is none of the twelve abbreviations, is no row of the aggregated table and
  has no cell in it.
\<close>

theorem unknown_month_label_dropped:
  assumes "year_result self f t year = Some d" and "m \<in> fst ` set d" and "m \<notin> set month_order"
  shows "fst (get_year_data self year f t 1) = [Fetching year, Fetched (length d) year]
     \<and> 0 < length d
     \<and> m \<notin> set (df_index (snd (scrape_multiple_years self now_year start_year end_year f t)))
     \<and> (\<forall>y. df_at (snd (scrape_multiple_years self now_year start_year end_year f t)) m y = None)"
proof -
  from assms(1) have "snd (get_year_data self year f t 1) = Some d"
    by (simp add: year_result_def)
  then have "get_year_data self year f t 1 = ([Fetching year, Fetched (length d) year], Some d)"
    by (rule get_year_data_Some)
  then have 1: "fst (get_year_data self year f t 1) = [Fetching year, Fetched (length d) year]"
    by simp
  from assms(2) have 2: "0 < length d" by auto
  from assms(3) have 3: "m \<notin> set (df_index (table_of all_data))" for all_data
    by (simp add: df_index_table_of)
  from assms(3) have 4: "df_at (table_of all_data) m y = None" for all_data y
    by (simp add: df_at_table_of)
  from 1 2 3 4 show ?thesis
    by (simp add: scrape_multiple_years_table)
qed

lemma merged_cong:
  assumes "\<And>y. y \<in> set years \<Longrightarrow>
      merge_year y (year_result self1 f t y) = merge_year y (year_result self2 f t y)"
  shows "merged self1 f t years all_data = merged self2 f t years all_data"
  using assms
proof (induction years arbitrary: all_data)
  case Nil
  then show ?case by (simp add: merged_def)
next
  case (Cons y years)
  have "merged self1 f t (y # years) all_data =
        merged self1 f t years (merge_year y (year_result self1 f t y) all_data)"
    by (simp add: merged_def)
  also have "\<dots> = merged self2 f t years (merge_year y (year_result self1 f t y) all_data)"
    by (rule Cons.IH) (simp add: Cons.prems)
  also have "merge_year y (year_result self1 f t y) = merge_year y (year_result self2 f t y)"
    by (rule Cons.prems) simp
  also have "merged self2 f t years (merge_year y (year_result self2 f t y) all_data) =
        merged self2 f t (y # years) all_data"
    by (simp add: merged_def)
  finally show ?case .
qed

lemma merge_year_empty: "merge_year y (Some []) = merge_year y None"
  by (rule ext) (simp add: merge_year_def)

text \<open>
  C10. Two scrapers whose yearly results agree on the range except that for one year
  the first returns the empty mapping and the second returns \<open>None\<close> produce the
  same aggregated table.
\<close>

theorem empty_mapping_like_no_data:
  assumes "year_result self1 f t year = Some []" and "year_result self2 f t year = None"
    and "\<forall>y\<in>set [start_year..(case end_year of None \<Rightarrow> now_year | Some e \<Rightarrow> e)].
           y \<noteq> year \<longrightarrow> year_result self1 f t y = year_result self2 f t y"
  shows "snd (scrape_multiple_years self1 now_year start_year end_year f t) =
         snd (scrape_multiple_years self2 now_year start_year end_year f t)"
proof -
  let ?years = "[start_year..(case end_year of None \<Rightarrow> now_year | Some e \<Rightarrow> e)]"
  have "merged self1 f t ?years [] = merged self2 f t ?years []"
  proof (rule merged_cong)
    fix y assume y: "y \<in> set ?years"
    show "merge_year y (year_result self1 f t y) = merge_year y (year_result self2 f t y)"
    proof (cases "y = year")
      case True
      with assms(1,2) show ?thesis by (simp add: merge_year_empty)
    next
      case False
      with assms(3) y show ?thesis by simp
    qed
  qed
  then show ?thesis by (simp add: scrape_multiple_years_table)
qed

section \<open>The aggregation on the example sites\<close>

lemma years_2019_2021: "[2019..2021] = [2019, 2020, 2021::int]"
  by (simp add: upto_rec_numeral)

lemma example_urls:
  "year_url ''https://www.x-rates.com/average/'' 2019 ''USD'' ''INR'' 1 =
     ''https://www.x-rates.com/average/?from=USD&to=INR&amount=1&year=2019''"
  "year_url ''https://www.x-rates.com/average/'' 2020 ''USD'' ''INR'' 1 =
     ''https://www.x-rates.com/average/?from=USD&to=INR&amount=1&year=2020''"
  "year_url ''https://www.x-rates.com/average/'' 2021 ''USD'' ''INR'' 1 =
     ''https://www.x-rates.com/average/?from=USD&to=INR&amount=1&year=2021''"
  by (simp_all add: year_url_def str_int_def str_nat.simps digit_char_def)

lemma three_months_items:
  "soup_find_all ''li'' None (Tag ''ul'' [''OutputLinksAvg''] three_months) = three_months"
  by (simp add: three_months_def find_all_li_3)

lemma three_months_parse:
  "parse_items three_months [] = Inr [(''Feb'', 167 / 2), (''Jan'', 82), (''January'', 1)]"
  by (simp add: three_months_def entry_evals)

lemma three_months_result:
  assumes "session self (year_url (base_url self) year f t 1) = page_response three_months"
  shows "get_year_data self year f t 1 =
     ([Fetching year, Fetched 3 year], Some [(''Feb'', 167 / 2), (''Jan'', 82), (''January'', 1)])"
proof -
  from assms have s: "session self (year_url (base_url self) year f t 1) =
      Inr \<lparr>status_code = 200, content = rates_page three_months\<rparr>"
    by (simp add: page_response_def)
  from get_year_data_page [OF s ok_status, of "Tag ''ul'' [''OutputLinksAvg''] three_months"]
  show ?thesis
    by (simp add: find_ul_page three_months_items three_months_parse del: parse_items.simps)
qed

lemma timeout_2020_sessions:
  "session timeout_2020_scraper (year_url (base_url timeout_2020_scraper) 2019 ''USD'' ''INR'' 1) =
     page_response three_months"
  "session timeout_2020_scraper (year_url (base_url timeout_2020_scraper) 2020 ''USD'' ''INR'' 1) =
     Inl Timeout"
  "session timeout_2020_scraper (year_url (base_url timeout_2020_scraper) 2021 ''USD'' ''INR'' 1) =
     page_response three_months"
  by (simp_all add: timeout_2020_scraper_def x_rates_def example_urls)

lemma timeout_2020_results:
  "year_result timeout_2020_scraper ''USD'' ''INR'' 2019 =
     Some [(''Feb'', 167 / 2), (''Jan'', 82), (''January'', 1)]"
  "year_result timeout_2020_scraper ''USD'' ''INR'' 2020 = None"
  "year_result timeout_2020_scraper ''USD'' ''INR'' 2021 =
     Some [(''Feb'', 167 / 2), (''Jan'', 82), (''January'', 1)]"
proof -
  show "year_result timeout_2020_scraper ''USD'' ''INR'' 2019 =
     Some [(''Feb'', 167 / 2), (''Jan'', 82), (''January'', 1)]"
    by (simp add: year_result_def three_months_result [OF timeout_2020_sessions(1)])
  show "year_result timeout_2020_scraper ''USD'' ''INR'' 2020 = None"
    by (simp add: year_result_def get_year_data_def get_year_data_try_def timeout_2020_sessions(2))
  show "year_result timeout_2020_scraper ''USD'' ''INR'' 2021 =
     Some [(''Feb'', 167 / 2), (''Jan'', 82), (''January'', 1)]"
    by (simp add: year_result_def three_months_result [OF timeout_2020_sessions(3)])
qed

lemma empty_2020_sessions:
  "session empty_2020_scraper (year_url (base_url empty_2020_scraper) 2019 ''USD'' ''INR'' 1) =
     page_response three_months"
  "session empty_2020_scraper (year_url (base_url empty_2020_scraper) 2020 ''USD'' ''INR'' 1) =
     page_response []"
  "session empty_2020_scraper (year_url (base_url empty_2020_scraper) 2021 ''USD'' ''INR'' 1) =
     page_response three_months"
  by (simp_all add: empty_2020_scraper_def x_rates_def example_urls)

lemma empty_2020_results:
  "year_result empty_2020_scraper ''USD'' ''INR'' 2019 =
     Some [(''Feb'', 167 / 2), (''Jan'', 82), (''January'', 1)]"
  "year_result empty_2020_scraper ''USD'' ''INR'' 2020 = Some []"
  "year_result empty_2020_scraper ''USD'' ''INR'' 2021 =
     Some [(''Feb'', 167 / 2), (''Jan'', 82), (''January'', 1)]"
proof -
  show "year_result empty_2020_scraper ''USD'' ''INR'' 2019 =
     Some [(''Feb'', 167 / 2), (''Jan'', 82), (''January'', 1)]"
    by (simp add: year_result_def three_months_result [OF empty_2020_sessions(1)])
  have s: "session empty_2020_scraper (year_url (base_url empty_2020_scraper) 2020 ''USD'' ''INR'' 1) =
      Inr \<lparr>status_code = 200, content = rates_page []\<rparr>"
    by (simp add: empty_2020_sessions(2) [unfolded page_response_def])
  from get_year_data_page [OF s ok_status, of "Tag ''ul'' [''OutputLinksAvg''] []"]
  show "year_result empty_2020_scraper ''USD'' ''INR'' 2020 = Some []"
    by (simp add: year_result_def find_ul_page soup_find_all_def)
  show "year_result empty_2020_scraper ''USD'' ''INR'' 2021 =
     Some [(''Feb'', 167 / 2), (''Jan'', 82), (''January'', 1)]"
    by (simp add: year_result_def three_months_result [OF empty_2020_sessions(3)])
qed

theorem table_rows_and_columns_ordered_witness:
  "df_index (snd (scrape_multiple_years timeout_2020_scraper 2025 2019 (Some 2021) ''USD'' ''INR'')) =
     [''Jan'', ''Feb'']
   \<and> subseq [''Jan'', ''Feb''] month_order
   \<and> sorted_wrt (<) (df_columns
         (snd (scrape_multiple_years timeout_2020_scraper 2025 2019 (Some 2021) ''USD'' ''INR'')))
   \<and> df_columns (snd (scrape_multiple_years timeout_2020_scraper 2025 2019 (Some 2021) ''USD'' ''INR'')) =
       [2019, 2021]"
proof -
  have obs: "observed_months timeout_2020_scraper ''USD'' ''INR'' [2019..2021] =
      [''Feb'', ''Jan'', ''January'', ''Feb'', ''Jan'', ''January'']"
    by (simp add: observed_months_def years_2019_2021 timeout_2020_results)
  have idx: "filter (\<lambda>m. m \<in> set [''Feb'', ''Jan'', ''January'', ''Feb'', ''Jan'', ''January''])
      month_order = [''Jan'', ''Feb'']"
    by (simp add: month_order_def)
  have cols: "filter (\<lambda>y. truthy (year_result timeout_2020_scraper ''USD'' ''INR'' y)) [2019..2021] =
      [2019, 2021]"
    by (simp add: years_2019_2021 timeout_2020_results)
  let ?T = "snd (scrape_multiple_years timeout_2020_scraper 2025 2019 (Some 2021) ''USD'' ''INR'')"
  note inst = table_rows_and_columns_ordered
    [of timeout_2020_scraper 2025 2019 "Some 2021" "''USD''" "''INR''"]
  note a = inst [THEN conjunct1]
  note c = inst [THEN conjunct2, THEN conjunct2, THEN conjunct1]
  from inst [THEN conjunct2, THEN conjunct1] have b: "df_index ?T = [''Jan'', ''Feb'']"
    by (simp only: option.case obs idx)
  from inst [THEN conjunct2, THEN conjunct2, THEN conjunct2] have d: "df_columns ?T = [2019, 2021]"
    by (simp only: option.case cols)
  from a have "subseq [''Jan'', ''Feb''] month_order"
    by (simp only: b)
  with b c d show ?thesis by (intro conjI)
qed

theorem failed_year_has_no_column_witness:
  "network_error timeout_2020_scraper
     (year_url (base_url timeout_2020_scraper) 2020 ''USD'' ''INR'' 1)
   \<and> snd (get_year_data timeout_2020_scraper 2020 ''USD'' ''INR'' 1) = None
   \<and> 2020 \<notin> set (df_columns
         (snd (scrape_multiple_years timeout_2020_scraper 2025 2019 (Some 2021) ''USD'' ''INR'')))
   \<and> 2019 \<in> set (df_columns
         (snd (scrape_multiple_years timeout_2020_scraper 2025 2019 (Some 2021) ''USD'' ''INR'')))
   \<and> 2021 \<in> set (df_columns
         (snd (scrape_multiple_years timeout_2020_scraper 2025 2019 (Some 2021) ''USD'' ''INR'')))
   \<and> df_at (snd (scrape_multiple_years timeout_2020_scraper 2025 2019 (Some 2021) ''USD'' ''INR''))
        ''Jan'' 2019 = Some 82
   \<and> df_at (snd (scrape_multiple_years timeout_2020_scraper 2025 2019 (Some 2021) ''USD'' ''INR''))
        ''Feb'' 2021 = Some (167 / 2)"
proof -
  let ?T = "snd (scrape_multiple_years timeout_2020_scraper 2025 2019 (Some 2021) ''USD'' ''INR'')"
  have h: "network_error timeout_2020_scraper
      (year_url (base_url timeout_2020_scraper) 2020 ''USD'' ''INR'' 1)"
    by (simp add: network_error_def timeout_2020_sessions)
  note inst = failed_year_has_no_column [OF h, of 2025 2019 "Some 2021", unfolded option.case]
  note a = inst [THEN conjunct1]
  note b = inst [THEN conjunct2, THEN conjunct2, THEN conjunct1]
  note c = inst [THEN conjunct2, THEN conjunct2, THEN conjunct2, THEN conjunct2]
  from c [rule_format, of 2019, OF conjI [OF _ conjI [OF _ conjI [OF timeout_2020_results(1)]]]]
  have d: "2019 \<in> set (df_columns ?T)" and e: "df_at ?T ''Jan'' 2019 = Some 82"
    by (simp_all add: month_order_def)
  from c [rule_format, of 2021, OF conjI [OF _ conjI [OF _ conjI [OF timeout_2020_results(3)]]]]
  have f: "2021 \<in> set (df_columns ?T)" and g: "df_at ?T ''Feb'' 2021 = Some (167 / 2)"
    by (simp_all add: month_order_def)
  from h a b d e f g show ?thesis by (intro conjI)
qed

theorem unknown_month_label_dropped_witness:
  "year_result timeout_2020_scraper ''USD'' ''INR'' 2019 =
     Some [(''Feb'', 167 / 2), (''Jan'', 82), (''January'', 1)]
   \<and> ''January'' \<notin> set month_order
   \<and> fst (get_year_data timeout_2020_scraper 2019 ''USD'' ''INR'' 1) = [Fetching 2019, Fetched 3 2019]
   \<and> ''January'' \<notin> set (df_index
         (snd (scrape_multiple_years timeout_2020_scraper 2025 2019 (Some 2021) ''USD'' ''INR'')))"
proof -
  have m: "''January'' \<in> fst ` set [(''Feb'', 167 / 2 :: rat), (''Jan'', 82), (''January'', 1)]"
    by simp
  have n: "''January'' \<notin> set month_order"
    by (simp add: month_order_def)
  from unknown_month_label_dropped [OF timeout_2020_results(1) m n, of 2025 2019 "Some 2021"]
    timeout_2020_results(1) n
  show ?thesis by simp
qed

theorem empty_mapping_like_no_data_witness:
  "year_result empty_2020_scraper ''USD'' ''INR'' 2020 = Some []
   \<and> year_result timeout_2020_scraper ''USD'' ''INR'' 2020 = None
   \<and> snd (scrape_multiple_years empty_2020_scraper 2025 2019 (Some 2021) ''USD'' ''INR'') =
       snd (scrape_multiple_years timeout_2020_scraper 2025 2019 (Some 2021) ''USD'' ''INR'')"
proof -
  have others: "\<forall>y\<in>set [2019..(case Some 2021 of None \<Rightarrow> 2025 | Some e \<Rightarrow> e)].
      y \<noteq> 2020 \<longrightarrow> year_result empty_2020_scraper ''USD'' ''INR'' y =
                     year_result timeout_2020_scraper ''USD'' ''INR'' y"
    by (simp only: option.case years_2019_2021)
       (simp add: empty_2020_results timeout_2020_results)
  from empty_mapping_like_no_data [OF empty_2020_results(2) timeout_2020_results(2) others]
    empty_2020_results(2) timeout_2020_results(2)
  show ?thesis by simp
qed

section \<open>Properties of the export\<close>

lemma table_of_Nil: "table_of [] = empty_table"
  by (simp add: table_of_def DataFrame_T_def reindex_def sort_index_columns_def unique_def
      empty_table_def month_order_def)

lemma formatted_sheet_empty: "formatted_sheet env empty_table = header_only_sheet"
  by (simp add: formatted_sheet_def empty_table_def to_excel_def format_header_def
      format_month_column_def adjust_widths_def max_length_def str_value_def plain_def
      header_only_sheet_def)

lemma save_to_excel_try_eq:
  "save_to_excel_try env df name =
     (case writer_exn env name of
        Some e \<Rightarrow> Inl e
      | None \<Rightarrow>
          (case to_excel_exn env df of
             Some e \<Rightarrow> Inl e
           | None \<Rightarrow>
               (case save_exn env name (formatted_sheet env df) of
                  Some e \<Rightarrow> Inl e
                | None \<Rightarrow> Inr (formatted_sheet env df))))"
  by (simp add: save_to_excel_try_def formatted_sheet_def Let_def split: option.splits)

text \<open>
  C6. Exporting the table without rows and columns, when no library call of the write
  raises, writes a sheet that has the header row and nothing else, prints that the data
  were saved and returns the file name, not \<open>None\<close>.
\<close>

theorem empty_table_export_succeeds:
  assumes "name = (case filename of None \<Rightarrow> default_filename f t timestamp | Some n \<Rightarrow> n)"
    and "writer_exn env name = None"
    and "to_excel_exn env empty_table = None"
    and "save_exn env name header_only_sheet = None"
  shows "save_to_excel env timestamp empty_table filename f t =
           \<lparr>printed = [Saved name], written = Some (name, header_only_sheet), returned = Some name\<rparr>
         \<and> length (ws_rows header_only_sheet) = 1"
  using assms
  by (simp add: save_to_excel_def save_to_excel_try_eq formatted_sheet_empty Let_def
      header_only_sheet_def del: One_nat_def)

theorem empty_table_export_succeeds_witness:
  "table_of [] = empty_table
   \<and> save_to_excel quiet_xl ''20240101_120000'' empty_table (Some ''rates.xlsx'') ''USD'' ''INR'' =
        \<lparr>printed = [Saved ''rates.xlsx''], written = Some (''rates.xlsx'', header_only_sheet),
         returned = Some ''rates.xlsx''\<rparr>
   \<and> returned (save_to_excel quiet_xl ''20240101_120000'' empty_table None ''USD'' ''INR'') =
        Some ''exchange_rates_USD_to_INR_20240101_120000.xlsx''"
proof -
  have a: "save_to_excel quiet_xl ''20240101_120000'' empty_table (Some ''rates.xlsx'') ''USD'' ''INR'' =
        \<lparr>printed = [Saved ''rates.xlsx''], written = Some (''rates.xlsx'', header_only_sheet),
         returned = Some ''rates.xlsx''\<rparr>"
    using empty_table_export_succeeds
      [where name = "''rates.xlsx''" and filename = "Some ''rates.xlsx''" and f = "''USD''"
         and t = "''INR''" and timestamp = "''20240101_120000''" and env = quiet_xl]
    by (simp add: quiet_xl_def)
  have b: "returned (save_to_excel quiet_xl ''20240101_120000'' empty_table None ''USD'' ''INR'') =
        Some ''exchange_rates_USD_to_INR_20240101_120000.xlsx''"
    using empty_table_export_succeeds
      [where name = "''exchange_rates_USD_to_INR_20240101_120000.xlsx''" and filename = None
         and f = "''USD''" and t = "''INR''" and timestamp = "''20240101_120000''"
         and env = quiet_xl]
    by (simp add: quiet_xl_def default_filename_def)
  from table_of_Nil a b show ?thesis by (intro conjI)
qed

text \<open>
  C7. For every table and file name, when a library call of the write raises (opening
  the writer, \<open>to_excel\<close>, or saving the formatted sheet when the writer is closed), the
  export prints the error, writes no file and returns \<open>None\<close>: the result is a value,
  no exception reaches the caller.
\<close>

theorem write_failure_returns_None:
  assumes "name = (case filename of None \<Rightarrow> default_filename f t timestamp | Some n \<Rightarrow> n)"
    and "writer_exn env name = Some e
         \<or> (writer_exn env name = None \<and> to_excel_exn env df = Some e)
         \<or> (writer_exn env name = None \<and> to_excel_exn env df = None
              \<and> save_exn env name (formatted_sheet env df) = Some e)"
  shows "save_to_excel env timestamp df filename f t =
           \<lparr>printed = [ErrSaving e], written = None, returned = None\<rparr>"
  using assms
  by (auto simp: save_to_excel_def save_to_excel_try_eq Let_def)

theorem write_failure_returns_None_witness:
  "writer_exn readonly_xl ''rates.xlsx'' = Some (OSError ''Permission denied'')
   \<and> save_to_excel readonly_xl ''20240101_120000'' (table_of [(''Jan'', [(2024, 83)])])
        (Some ''rates.xlsx'') ''USD'' ''INR'' =
        \<lparr>printed = [ErrSaving (OSError ''Permission denied'')], written = None, returned = None\<rparr>"
proof -
  have h: "writer_exn readonly_xl ''rates.xlsx'' = Some (OSError ''Permission denied'')"
    by (simp add: readonly_xl_def)
  from write_failure_returns_None
    [where name = "''rates.xlsx''" and filename = "Some ''rates.xlsx''" and f = "''USD''"
       and t = "''INR''" and timestamp = "''20240101_120000''" and env = readonly_xl
       and e = "OSError ''Permission denied''", OF _ disjI1 [OF h]]
    h
  show ?thesis by simp
qed

end
